theory Spec2Isabelle
  imports Complex_Main
begin

section \<open>Falling Lanes: the frame simulation of src/app/page.tsx\<close>

text \<open>
  The game keeps one mutable \<open>GameState\<close> object and a few closure variables (the player
  mesh, the browser's local storage, the touch start point). The model passes them around
  as one record. JavaScript numbers are modelled as real numbers. Scene decoration that no
  game rule reads (camera, trail, rain, speed lines, lane colours, materials, the React HUD
  state) is left out.
\<close>

subsection \<open>Values of three.js that the simulation reads\<close>

text \<open>
  \<open>THREE.MathUtils.clamp(value, min, max)\<close> is \<open>Math.max(min, Math.min(max, value))\<close> and
  \<open>THREE.MathUtils.lerp(x, y, t)\<close> is \<open>(1 - t) * x + t * y\<close>.
\<close>

definition clamp :: "real \<Rightarrow> real \<Rightarrow> real \<Rightarrow> real" where
  "clamp v lo hi = max lo (min hi v)"

definition lerp :: "real \<Rightarrow> real \<Rightarrow> real \<Rightarrow> real" where
  "lerp x y t = (1 - t) * x + t * y"

text \<open>A \<open>THREE.Box3\<close>: the corner \<open>min\<close> and the corner \<open>max\<close>.\<close>

record box3 =
  min_x :: real
  min_y :: real
  min_z :: real
  max_x :: real
  max_y :: real
  max_z :: real

text \<open>
  A \<open>THREE.Mesh\<close> with a \<open>BoxGeometry(width, height, depth)\<close>: its object id, the box
  dimensions of the geometry, and the parts of \<open>position\<close>, \<open>rotation\<close> and \<open>scale\<close> that
  the game reads or writes. A new mesh has scale 1 and rotation 0.
\<close>

record threeMesh =
  mesh_id :: nat
  geometry_width :: real
  geometry_height :: real
  geometry_depth :: real
  position_x :: real
  position_y :: real
  position_z :: real
  rotation_y :: real
  scale_y :: real

subsection \<open>Game data\<close>

record obstacle =
  mesh :: threeMesh
  laneIndex :: int
  falling :: bool
  vy :: real
  landed :: bool

record gameState =
  running :: bool
  paused :: bool
  gameOver :: bool
  lastTime :: real
  laneIndex :: int
  laneStartX :: real
  laneTargetX :: real
  laneT :: real
  laneDuration :: real
  speed :: real
  difficulty :: real
  spawnTimer :: real
  spawnInterval :: real
  score :: real
  topScore :: real
  obstacles :: "obstacle list"
  blocksSpawned :: nat

text \<open>
  The closure variables beside the game state: \<open>player.position.x\<close> (the player's y stays
  0.5 and z stays 2), the values written with \<open>localStorage.setItem(STORAGE_KEY, _)\<close>
  (latest first, each the integer whose decimal string is stored), and the touch start
  point \<open>sx\<close>, \<open>sy\<close>.
\<close>

record world = gameState +
  player_x :: real
  storageLog :: "int list"
  sx :: real
  sy :: real

definition LANES :: "real list" where
  "LANES = [-3, 0, 3]"

definition player_y :: real where
  "player_y = 0.5"

definition player_z :: real where
  "player_z = 2"

text \<open>The state built when the page mounts; \<open>storedTop\<close> is the top score read from storage.\<close>

definition initialState :: "real \<Rightarrow> world" where
  "initialState storedTop =
     \<lparr>running = False, paused = False, gameOver = False, lastTime = 0,
      laneIndex = 1, laneStartX = 0, laneTargetX = 0, laneT = 0, laneDuration = 0.1,
      speed = 6, difficulty = 1, spawnTimer = 0, spawnInterval = 1.2,
      score = 0, topScore = storedTop, obstacles = [], blocksSpawned = 0,
      player_x = 0, storageLog = [], sx = 0, sy = 0\<rparr>"

text \<open>The four phases of the specification, read off the three flags.\<close>

datatype phase = Idle | Running | Paused | GameOver

definition phaseOf :: "world \<Rightarrow> phase" where
  "phaseOf s =
     (if gameOver s then GameOver
      else if \<not> running s then Idle
      else if paused s then Paused
      else Running)"

subsection \<open>Commands\<close>

definition tryMoveLane :: "int \<Rightarrow> world \<Rightarrow> world" where
  "tryMoveLane delta s =
     (if gameOver s then s
      else
        let newIndex = laneIndex s + delta in
        if newIndex < 0 \<or> newIndex > 2 then s
        else
          s\<lparr>laneIndex := newIndex,
            laneStartX := player_x s,
            laneTargetX := LANES ! nat newIndex,
            laneT := 0\<rparr>)"

text \<open>
  \<open>spawnObstacle\<close> draws six numbers from \<open>Math.random()\<close>, in this order, and the new
  mesh gets a fresh object id.
\<close>

record spawnRandoms =
  rnd_lane :: real
  rnd_w :: real
  rnd_h :: real
  rnd_d :: real
  rnd_y :: real
  rnd_z :: real
  new_id :: nat

definition spawnObstacle :: "spawnRandoms \<Rightarrow> world \<Rightarrow> world" where
  "spawnObstacle r s =
     (let lane = \<lfloor>rnd_lane r * 3\<rfloor>;
          x = LANES ! nat lane;
          difficultyFactor = min 2 (0.8 + difficulty s * 0.1);
          w = 0.8 + rnd_w r * 1.5 * difficultyFactor;
          h = 0.8 + rnd_h r * 1.2 * difficultyFactor;
          d = 0.8 + rnd_d r * 1.5 * difficultyFactor;
          m = \<lparr>mesh_id = new_id r,
               geometry_width = w, geometry_height = h, geometry_depth = d,
               position_x = x, position_y = 8 + rnd_y r * 3, position_z = -40 - rnd_z r * 20,
               rotation_y = 0, scale_y = 1\<rparr>;
          s1 = s\<lparr>obstacles := obstacles s @
                  [\<lparr>mesh = m, laneIndex = lane, falling = True, vy = 0, landed = False\<rparr>]\<rparr>
      in s1\<lparr>blocksSpawned := blocksSpawned s1 + 1\<rparr>)"

definition resetWorld :: "world \<Rightarrow> world" where
  "resetWorld s =
     s\<lparr>obstacles := [],
       speed := 6, difficulty := 1, spawnInterval := 1.2, spawnTimer := 0,
       score := 0, blocksSpawned := 0,
       laneIndex := 1, laneStartX := 0, laneTargetX := 0, laneT := 0,
       player_x := 0\<rparr>"

definition startGame :: "real \<Rightarrow> world \<Rightarrow> world" where
  "startGame now s =
     (resetWorld s)\<lparr>running := True, paused := False, gameOver := False, lastTime := now\<rparr>"

definition endGame :: "world \<Rightarrow> world" where
  "endGame s =
     (let s1 = s\<lparr>gameOver := True, running := False\<rparr> in
      if score s1 > topScore s1 then
        let s2 = s1\<lparr>topScore := score s1\<rparr>
        in s2\<lparr>storageLog := \<lfloor>topScore s2\<rfloor> # storageLog s2\<rparr>
      else s1)"

definition togglePause :: "real \<Rightarrow> world \<Rightarrow> world" where
  "togglePause now s =
     (if \<not> running s \<or> gameOver s then s
      else
        let s1 = s\<lparr>paused := \<not> paused s\<rparr>
        in if \<not> paused s1 then s1\<lparr>lastTime := now\<rparr> else s1)"

text \<open>
  \<open>intersectsCube\<close> asks three.js for the world bounding box of the mesh,
  \<open>new THREE.Box3().setFromObject(mesh)\<close>; that function is a parameter here.
\<close>

definition intersectsCube ::
  "(threeMesh \<Rightarrow> box3) \<Rightarrow> threeMesh \<Rightarrow> real \<Rightarrow> real \<Rightarrow> real \<Rightarrow> real \<Rightarrow> bool" where
  "intersectsCube setFromObject m px py pz radius =
     (let box = setFromObject m;
          cx = clamp px (min_x box) (max_x box);
          cy = clamp py (min_y box) (max_y box);
          cz = clamp pz (min_z box) (max_z box);
          dx = cx - px;
          dy = cy - py;
          dz = cz - pz
      in dx * dx + dy * dy + dz * dz < radius * radius)"

subsection \<open>The frame\<close>

text \<open>Score and difficulty: the score uses the difficulty of the frame before.\<close>

definition scoreAndDifficulty :: "real \<Rightarrow> world \<Rightarrow> world" where
  "scoreAndDifficulty dt s =
     (let s1 = s\<lparr>score := score s + dt * (8 + difficulty s * 2)\<rparr>;
          s2 = s1\<lparr>difficulty := difficulty s1 + dt * 0.03\<rparr>;
          s3 = s2\<lparr>speed := 6 + difficulty s2 * 4\<rparr>
      in s3\<lparr>spawnInterval := max 0.5 (1.2 - difficulty s3 * 0.05)\<rparr>)"

definition laneInterpolation :: "real \<Rightarrow> world \<Rightarrow> world" where
  "laneInterpolation dt s =
     (if laneT s < laneDuration s then
        let s1 = s\<lparr>laneT := laneT s + dt\<rparr>;
            tNorm = min 1 (laneT s1 / laneDuration s1);
            smooth = tNorm * tNorm * (3 - 2 * tNorm)
        in s1\<lparr>player_x := lerp (laneStartX s1) (laneTargetX s1) smooth\<rparr>
      else s\<lparr>player_x := laneTargetX s\<rparr>)"

definition spawnObstacles :: "spawnRandoms \<Rightarrow> real \<Rightarrow> world \<Rightarrow> world" where
  "spawnObstacles r dt s =
     (let s1 = s\<lparr>spawnTimer := spawnTimer s + dt\<rparr> in
      if spawnTimer s1 > spawnInterval s1 then spawnObstacle r (s1\<lparr>spawnTimer := 0\<rparr>)
      else s1)"

text \<open>What one pass of the obstacle loop does to obstacle \<open>i\<close> before the removal test.\<close>

definition updateObstacle :: "real \<Rightarrow> real \<Rightarrow> real \<Rightarrow> nat \<Rightarrow> obstacle \<Rightarrow> obstacle" where
  "updateObstacle time dt forward i ob =
     (if falling ob \<and> \<not> landed ob then
        let o1 = ob\<lparr>vy := vy ob + - 25 * dt\<rparr>;
            m1 = (mesh o1)\<lparr>position_y := position_y (mesh o1) + vy o1 * dt\<rparr>;
            m2 = m1\<lparr>position_z := position_z m1 + forward * 0.3\<rparr>
        in if position_y m2 \<le> 0.5 + scale_y m2 / 2 then
             o1\<lparr>mesh := m2\<lparr>position_y := 0.5 + scale_y m2 / 2\<rparr>,
                falling := False, landed := True, vy := 0\<rparr>
           else o1\<lparr>mesh := m2\<rparr>
      else if landed ob then
        ob\<lparr>mesh := (mesh ob)\<lparr>position_z := position_z (mesh ob) + forward,
                              rotation_y := sin (time * 0.004 + real i) * 0.15\<rparr>\<rparr>
      else ob)"

text \<open>
  The loop \<open>for (let i = g.obstacles.length - 1; i >= 0; i--)\<close>: the first argument after
  the frame values is the number of indices still to visit, so the obstacle visited is the
  one at index \<open>i\<close>. The result is the list and whether the loop left through \<open>endGame\<close>.
\<close>

fun obstaclesLoop ::
  "(threeMesh \<Rightarrow> box3) \<Rightarrow> real \<Rightarrow> real \<Rightarrow> real \<Rightarrow> real \<Rightarrow> nat \<Rightarrow> obstacle list
    \<Rightarrow> obstacle list \<times> bool" where
  "obstaclesLoop setFromObject time dt forward px 0 os = (os, False)"
| "obstaclesLoop setFromObject time dt forward px (Suc i) os =
     (let ob = updateObstacle time dt forward i (os ! i) in
      if position_z (mesh ob) > 10 then
        obstaclesLoop setFromObject time dt forward px i (take i os @ drop (Suc i) os)
      else if intersectsCube setFromObject (mesh ob) px player_y player_z 0.7 then
        (os[i := ob], True)
      else obstaclesLoop setFromObject time dt forward px i (os[i := ob]))"

definition updateObstacles ::
  "(threeMesh \<Rightarrow> box3) \<Rightarrow> real \<Rightarrow> real \<Rightarrow> real \<Rightarrow> world \<Rightarrow> world" where
  "updateObstacles setFromObject time dt forward s =
     (case obstaclesLoop setFromObject time dt forward (player_x s)
             (length (obstacles s)) (obstacles s) of
        (os, hit) \<Rightarrow>
          let s1 = s\<lparr>obstacles := os\<rparr> in if hit then endGame s1 else s1)"

text \<open>The frame delta in seconds, from the timestamps in milliseconds, cut off at 50 ms.\<close>

definition frameDelta :: "real \<Rightarrow> world \<Rightarrow> real" where
  "frameDelta time s = min ((time - lastTime s) / 1000) 0.05"

definition loop :: "(threeMesh \<Rightarrow> box3) \<Rightarrow> spawnRandoms \<Rightarrow> real \<Rightarrow> world \<Rightarrow> world" where
  "loop setFromObject r time s =
     (if \<not> running s \<or> paused s then s
      else
        let dt = frameDelta time s;
            s0 = s\<lparr>lastTime := time\<rparr>
        in if gameOver s0 then s0
           else
             let s1 = scoreAndDifficulty dt s0;
                 s2 = laneInterpolation dt s1;
                 forward = speed s2 * dt;
                 s3 = spawnObstacles r dt s2
             in updateObstacles setFromObject time dt forward s3)"

subsection \<open>Input handlers\<close>

definition handleStartOrRestart :: "real \<Rightarrow> world \<Rightarrow> world" where
  "handleStartOrRestart now s = (if \<not> running s \<or> gameOver s then startGame now s else s)"

datatype keyCode = KeyP | Escape | ArrowLeft | KeyA | ArrowRight | KeyD | OtherKey

definition onKeyDown :: "keyCode \<Rightarrow> real \<Rightarrow> world \<Rightarrow> world" where
  "onKeyDown code now s =
     (let s1 = (if code \<noteq> KeyP \<and> code \<noteq> Escape then handleStartOrRestart now s else s);
          s2 = (if code = ArrowLeft \<or> code = KeyA then tryMoveLane (- 1) s1 else s1);
          s3 = (if code = ArrowRight \<or> code = KeyD then tryMoveLane 1 s2 else s2)
      in if code = Escape \<or> code = KeyP then togglePause now s3 else s3)"

definition onTouchStart :: "real \<Rightarrow> real \<Rightarrow> real \<Rightarrow> world \<Rightarrow> world" where
  "onTouchStart clientX clientY now s = handleStartOrRestart now (s\<lparr>sx := clientX, sy := clientY\<rparr>)"

definition onTouchEnd :: "real \<Rightarrow> real \<Rightarrow> world \<Rightarrow> world" where
  "onTouchEnd clientX clientY s =
     (let dx = clientX - sx s;
          dy = clientY - sy s;
          absX = \<bar>dx\<bar>;
          absY = \<bar>dy\<bar>
      in if absX > absY \<and> absX > 40 then
           (if dx < 0 then tryMoveLane (- 1) s else tryMoveLane 1 s)
         else s)"

definition onClick :: "real \<Rightarrow> world \<Rightarrow> world" where
  "onClick now s = (if paused s \<and> running s \<and> \<not> gameOver s then togglePause now s else s)"

text \<open>
  Everything that can happen to the state after the page has mounted: an animation frame
  (with the random numbers a spawn in it would draw and the frame's timestamp) or one of
  the input events (with the value of \<open>performance.now()\<close> where the handler reads it).
\<close>

datatype event =
    AnimationFrame spawnRandoms real
  | KeyDown keyCode real
  | TouchStart real real real
  | TouchEnd real real
  | Click real

fun step :: "(threeMesh \<Rightarrow> box3) \<Rightarrow> event \<Rightarrow> world \<Rightarrow> world" where
  "step setFromObject (AnimationFrame r time) s = loop setFromObject r time s"
| "step setFromObject (KeyDown code now) s = onKeyDown code now s"
| "step setFromObject (TouchStart clientX clientY now) s = onTouchStart clientX clientY now s"
| "step setFromObject (TouchEnd clientX clientY) s = onTouchEnd clientX clientY s"
| "step setFromObject (Click now) s = onClick now s"

definition run :: "(threeMesh \<Rightarrow> box3) \<Rightarrow> event list \<Rightarrow> world \<Rightarrow> world" where
  "run setFromObject evs s = fold (step setFromObject) evs s"

subsection \<open>Notions of the specification\<close>

text \<open>
  The state after a key press has started the game and \<open>P\<close> has paused it: the player
  is in the middle lane and the game is paused.
\<close>

definition pausedAtLaneOne :: world where
  "pausedAtLaneOne = onKeyDown KeyP 5 (onKeyDown OtherKey 0 (initialState 0))"

text \<open>The easing curve of the specification, \<open>f(t) = t\<^sup>2 (3 - 2 t)\<close>.\<close>

definition smoothstep :: "real \<Rightarrow> real" where
  "smoothstep t = t\<^sup>2 * (3 - 2 * t)"


text \<open>Two states at the end of a run, with a stored top score of 100.\<close>

definition overByHalf :: world where
  "overByHalf = (startGame 0 (initialState 100))\<lparr>score := 100.5\<rparr>"

definition finalScore120 :: world where
  "finalScore120 = (startGame 0 (initialState 100))\<lparr>score := 120.7\<rparr>"

text \<open>A running game in which a move to the right lane has just been accepted.\<close>

definition midMove :: world where
  "midMove = tryMoveLane 1 (startGame 0 (initialState 0))"

text \<open>
  Values for closed examples: the bounding box three.js computes for a mesh that is neither
  rotated nor scaled, and the random numbers of a spawn all equal to one half.
\<close>

definition unrotatedBox :: "threeMesh \<Rightarrow> box3" where
  "unrotatedBox m =
     \<lparr>min_x = position_x m - geometry_width m / 2,
      min_y = position_y m - geometry_height m / 2,
      min_z = position_z m - geometry_depth m / 2,
      max_x = position_x m + geometry_width m / 2,
      max_y = position_y m + geometry_height m / 2,
      max_z = position_z m + geometry_depth m / 2\<rparr>"

definition halfRandoms :: "nat \<Rightarrow> spawnRandoms" where
  "halfRandoms k =
     \<lparr>rnd_lane = 0.5, rnd_w = 0.5, rnd_h = 0.5, rnd_d = 0.5, rnd_y = 0.5, rnd_z = 0.5,
      new_id = k\<rparr>"

text \<open>
  The simulated running time of a sequence of events: a frame adds its frame delta when the
  game is running, not paused and not over; an event that starts or restarts the game sets
  it back to 0.
\<close>

fun restarts :: "event \<Rightarrow> world \<Rightarrow> bool" where
  "restarts (KeyDown code now) s = (code \<noteq> KeyP \<and> code \<noteq> Escape \<and> (\<not> running s \<or> gameOver s))"
| "restarts (TouchStart clientX clientY now) s = (\<not> running s \<or> gameOver s)"
| "restarts ev s = False"

fun simulatedTime :: "event \<Rightarrow> world \<Rightarrow> real" where
  "simulatedTime (AnimationFrame r time) s =
     (if running s \<and> \<not> paused s \<and> \<not> gameOver s then frameDelta time s else 0)"
| "simulatedTime ev s = 0"

fun runningTime :: "(threeMesh \<Rightarrow> box3) \<Rightarrow> event list \<Rightarrow> world \<Rightarrow> real \<Rightarrow> real" where
  "runningTime setFromObject [] s t = t"
| "runningTime setFromObject (ev # evs) s t =
     runningTime setFromObject evs (step setFromObject ev s)
       (if restarts ev s then 0 else t + simulatedTime ev s)"

definition justStarted :: world where
  "justStarted = startGame 0 (initialState 0)"

definition pauseAndResume :: "event list" where
  "pauseAndResume =
     [KeyDown OtherKey 0, AnimationFrame (halfRandoms 1) 16, KeyDown KeyP 20,
      AnimationFrame (halfRandoms 2) 36, KeyDown KeyP 40, AnimationFrame (halfRandoms 3) 56]"

text \<open>
  The whole obstacle loop of a frame, and what it decides for obstacle \<open>i\<close>: after its
  update the obstacle is still in the scene and \<open>intersectsCube\<close> holds for it and the player.
\<close>

definition allObstacles ::
  "(threeMesh \<Rightarrow> box3) \<Rightarrow> real \<Rightarrow> real \<Rightarrow> real \<Rightarrow> real \<Rightarrow> obstacle list
    \<Rightarrow> obstacle list \<times> bool" where
  "allObstacles sfo time dt fwd px os = obstaclesLoop sfo time dt fwd px (length os) os"

definition collides ::
  "(threeMesh \<Rightarrow> box3) \<Rightarrow> real \<Rightarrow> real \<Rightarrow> real \<Rightarrow> real \<Rightarrow> nat \<Rightarrow> obstacle \<Rightarrow> bool" where
  "collides setFromObject time dt forward px i ob =
     (let ob' = updateObstacle time dt forward i ob
      in position_z (mesh ob') \<le> 10 \<and>
         intersectsCube setFromObject (mesh ob') px player_y player_z 0.7)"

text \<open>
  The state of a simulated frame when it reaches the obstacle loop: time stamp, score,
  difficulty, lane and spawn are done.
\<close>

definition beforeObstacles :: "spawnRandoms \<Rightarrow> real \<Rightarrow> world \<Rightarrow> world" where
  "beforeObstacles r time s =
     (let dt = frameDelta time s
      in spawnObstacles r dt (laneInterpolation dt (scoreAndDifficulty dt (s\<lparr>lastTime := time\<rparr>))))"

text \<open>
  An obstacle is told from the others by the object id of its mesh. \<open>stays ob ob'\<close> says
  that \<open>ob'\<close> is a later state of a landed obstacle \<open>ob\<close> only if it is landed too, with
  the same flags and the same height. The ids a sequence of events hands to new meshes are
  those of its frames.
\<close>

definition obstacleId :: "obstacle \<Rightarrow> nat" where
  "obstacleId ob = mesh_id (mesh ob)"

definition obstacleIds :: "world \<Rightarrow> nat list" where
  "obstacleIds s = map obstacleId (obstacles s)"

definition stays :: "obstacle \<Rightarrow> obstacle \<Rightarrow> bool" where
  "stays ob ob' \<longleftrightarrow>
     (landed ob \<longrightarrow>
        landed ob' \<and> falling ob' = falling ob \<and>
        position_y (mesh ob') = position_y (mesh ob))"

fun eventIds :: "event \<Rightarrow> nat list" where
  "eventIds (AnimationFrame r time) = [new_id r]"
| "eventIds ev = []"

text \<open>
  An event spawns when it raises the count of spawned obstacles by one. The simulated time
  since the last spawn or start is kept like the running time above.
\<close>

definition spawns :: "(threeMesh \<Rightarrow> box3) \<Rightarrow> event \<Rightarrow> world \<Rightarrow> bool" where
  "spawns setFromObject ev s \<longleftrightarrow>
     blocksSpawned (step setFromObject ev s) = blocksSpawned s + 1"

fun timeSinceSpawn :: "(threeMesh \<Rightarrow> box3) \<Rightarrow> event list \<Rightarrow> world \<Rightarrow> real \<Rightarrow> real" where
  "timeSinceSpawn setFromObject [] s t = t"
| "timeSinceSpawn setFromObject (ev # evs) s t =
     timeSinceSpawn setFromObject evs (step setFromObject ev s)
       (if restarts ev s \<or> spawns setFromObject ev s then 0 else t + simulatedTime ev s)"


text \<open>
  States and obstacles for closed examples: a landed obstacle in the player's lane about to
  reach the player, a landed obstacle in the right lane far ahead with a player who moves to
  the left, a game whose spawn timer is about to run out, and the obstacle that a spawn with
  all random numbers one half creates at difficulty 1.
\<close>

definition nearPlayer :: obstacle where
  "nearPlayer =
     \<lparr>mesh = \<lparr>mesh_id = 1, geometry_width = 1, geometry_height = 1, geometry_depth = 1,
              position_x = 0, position_y = 1, position_z = 1.5, rotation_y = 0, scale_y = 1\<rparr>,
      laneIndex = 1, falling = False, vy = 0, landed = True\<rparr>"

definition aboutToHit :: world where
  "aboutToHit = (startGame 0 (initialState 0))\<lparr>obstacles := [nearPlayer]\<rparr>"

definition landedAside :: obstacle where
  "landedAside =
     \<lparr>mesh = \<lparr>mesh_id = 1, geometry_width = 1, geometry_height = 1, geometry_depth = 1,
              position_x = 3, position_y = 1, position_z = - 30, rotation_y = 0, scale_y = 1\<rparr>,
      laneIndex = 2, falling = False, vy = 0, landed = True\<rparr>"

definition besideLanded :: world where
  "besideLanded = (startGame 0 (initialState 0))\<lparr>obstacles := [landedAside]\<rparr>"

definition dodgeLeft :: "event list" where
  "dodgeLeft =
     [AnimationFrame (halfRandoms 2) 16, KeyDown ArrowLeft 20, AnimationFrame (halfRandoms 3) 32]"

definition dueToSpawn :: world where
  "dueToSpawn = (startGame 0 (initialState 0))\<lparr>spawnTimer := 1.14\<rparr>"

definition spawnedHalf :: obstacle where
  "spawnedHalf = last (obstacles (spawnObstacle (halfRandoms 1) (startGame 0 (initialState 0))))"

section \<open>Properties\<close>

subsection \<open>Which fields each part of the frame touches\<close>

lemma endGame_fields:
  "difficulty (endGame s) = difficulty s"
  "speed (endGame s) = speed s"
  "spawnInterval (endGame s) = spawnInterval s"
  "spawnTimer (endGame s) = spawnTimer s"
  "score (endGame s) = score s"
  "blocksSpawned (endGame s) = blocksSpawned s"
  "obstacles (endGame s) = obstacles s"
  "gameState.laneIndex (endGame s) = gameState.laneIndex s"
  "laneT (endGame s) = laneT s"
  "laneStartX (endGame s) = laneStartX s"
  "laneTargetX (endGame s) = laneTargetX s"
  "laneDuration (endGame s) = laneDuration s"
  "player_x (endGame s) = player_x s"
  "lastTime (endGame s) = lastTime s"
  "paused (endGame s) = paused s"
  "gameOver (endGame s)"
  "\<not> running (endGame s)"
  by (simp_all add: endGame_def Let_def)

lemma updateObstacles_fields:
  "difficulty (updateObstacles sfo time dt fwd s) = difficulty s"
  "speed (updateObstacles sfo time dt fwd s) = speed s"
  "spawnInterval (updateObstacles sfo time dt fwd s) = spawnInterval s"
  "spawnTimer (updateObstacles sfo time dt fwd s) = spawnTimer s"
  "score (updateObstacles sfo time dt fwd s) = score s"
  "blocksSpawned (updateObstacles sfo time dt fwd s) = blocksSpawned s"
  "gameState.laneIndex (updateObstacles sfo time dt fwd s) = gameState.laneIndex s"
  "laneT (updateObstacles sfo time dt fwd s) = laneT s"
  "laneStartX (updateObstacles sfo time dt fwd s) = laneStartX s"
  "laneTargetX (updateObstacles sfo time dt fwd s) = laneTargetX s"
  "laneDuration (updateObstacles sfo time dt fwd s) = laneDuration s"
  "player_x (updateObstacles sfo time dt fwd s) = player_x s"
  "lastTime (updateObstacles sfo time dt fwd s) = lastTime s"
  "paused (updateObstacles sfo time dt fwd s) = paused s"
  by (simp_all add: updateObstacles_def endGame_fields Let_def split: prod.split)

lemma spawnObstacle_fields:
  "difficulty (spawnObstacle r s) = difficulty s"
  "speed (spawnObstacle r s) = speed s"
  "spawnInterval (spawnObstacle r s) = spawnInterval s"
  "spawnTimer (spawnObstacle r s) = spawnTimer s"
  "score (spawnObstacle r s) = score s"
  "blocksSpawned (spawnObstacle r s) = blocksSpawned s + 1"
  "gameState.laneIndex (spawnObstacle r s) = gameState.laneIndex s"
  "laneT (spawnObstacle r s) = laneT s"
  "laneStartX (spawnObstacle r s) = laneStartX s"
  "laneTargetX (spawnObstacle r s) = laneTargetX s"
  "laneDuration (spawnObstacle r s) = laneDuration s"
  "player_x (spawnObstacle r s) = player_x s"
  "lastTime (spawnObstacle r s) = lastTime s"
  "paused (spawnObstacle r s) = paused s"
  "running (spawnObstacle r s) = running s"
  "gameOver (spawnObstacle r s) = gameOver s"
  "topScore (spawnObstacle r s) = topScore s"
  "storageLog (spawnObstacle r s) = storageLog s"
  by (simp_all add: spawnObstacle_def Let_def)

lemma spawnObstacles_fields:
  "difficulty (spawnObstacles r dt s) = difficulty s"
  "speed (spawnObstacles r dt s) = speed s"
  "spawnInterval (spawnObstacles r dt s) = spawnInterval s"
  "score (spawnObstacles r dt s) = score s"
  "gameState.laneIndex (spawnObstacles r dt s) = gameState.laneIndex s"
  "laneT (spawnObstacles r dt s) = laneT s"
  "laneStartX (spawnObstacles r dt s) = laneStartX s"
  "laneTargetX (spawnObstacles r dt s) = laneTargetX s"
  "laneDuration (spawnObstacles r dt s) = laneDuration s"
  "player_x (spawnObstacles r dt s) = player_x s"
  "lastTime (spawnObstacles r dt s) = lastTime s"
  "paused (spawnObstacles r dt s) = paused s"
  "running (spawnObstacles r dt s) = running s"
  "gameOver (spawnObstacles r dt s) = gameOver s"
  "topScore (spawnObstacles r dt s) = topScore s"
  "storageLog (spawnObstacles r dt s) = storageLog s"
  by (simp_all add: spawnObstacles_def spawnObstacle_fields Let_def)

lemma laneInterpolation_fields:
  "difficulty (laneInterpolation dt s) = difficulty s"
  "speed (laneInterpolation dt s) = speed s"
  "spawnInterval (laneInterpolation dt s) = spawnInterval s"
  "spawnTimer (laneInterpolation dt s) = spawnTimer s"
  "score (laneInterpolation dt s) = score s"
  "blocksSpawned (laneInterpolation dt s) = blocksSpawned s"
  "obstacles (laneInterpolation dt s) = obstacles s"
  "gameState.laneIndex (laneInterpolation dt s) = gameState.laneIndex s"
  "laneStartX (laneInterpolation dt s) = laneStartX s"
  "laneTargetX (laneInterpolation dt s) = laneTargetX s"
  "laneDuration (laneInterpolation dt s) = laneDuration s"
  "lastTime (laneInterpolation dt s) = lastTime s"
  "paused (laneInterpolation dt s) = paused s"
  "running (laneInterpolation dt s) = running s"
  "gameOver (laneInterpolation dt s) = gameOver s"
  "topScore (laneInterpolation dt s) = topScore s"
  "storageLog (laneInterpolation dt s) = storageLog s"
  by (simp_all add: laneInterpolation_def Let_def)

lemma scoreAndDifficulty_fields:
  "score (scoreAndDifficulty dt s) = score s + dt * (8 + difficulty s * 2)"
  "difficulty (scoreAndDifficulty dt s) = difficulty s + dt * 0.03"
  "speed (scoreAndDifficulty dt s) = 6 + (difficulty s + dt * 0.03) * 4"
  "spawnInterval (scoreAndDifficulty dt s) = max 0.5 (1.2 - (difficulty s + dt * 0.03) * 0.05)"
  "spawnTimer (scoreAndDifficulty dt s) = spawnTimer s"
  "blocksSpawned (scoreAndDifficulty dt s) = blocksSpawned s"
  "obstacles (scoreAndDifficulty dt s) = obstacles s"
  "gameState.laneIndex (scoreAndDifficulty dt s) = gameState.laneIndex s"
  "laneT (scoreAndDifficulty dt s) = laneT s"
  "laneStartX (scoreAndDifficulty dt s) = laneStartX s"
  "laneTargetX (scoreAndDifficulty dt s) = laneTargetX s"
  "laneDuration (scoreAndDifficulty dt s) = laneDuration s"
  "player_x (scoreAndDifficulty dt s) = player_x s"
  "lastTime (scoreAndDifficulty dt s) = lastTime s"
  "paused (scoreAndDifficulty dt s) = paused s"
  "running (scoreAndDifficulty dt s) = running s"
  "gameOver (scoreAndDifficulty dt s) = gameOver s"
  "topScore (scoreAndDifficulty dt s) = topScore s"
  "storageLog (scoreAndDifficulty dt s) = storageLog s"
  by (simp_all add: scoreAndDifficulty_def Let_def)

text \<open>The frame that is simulated.\<close>

lemma loop_simulated:
  assumes "running s" "\<not> paused s" "\<not> gameOver s"
  shows "loop sfo r time s =
    (let dt = frameDelta time s;
         s2 = laneInterpolation dt (scoreAndDifficulty dt (s\<lparr>lastTime := time\<rparr>))
     in updateObstacles sfo time dt (speed s2 * dt) (spawnObstacles r dt s2))"
  using assms by (simp add: loop_def Let_def)

lemma loop_skipped:
  assumes "\<not> running s \<or> paused s"
  shows "loop sfo r time s = s"
  using assms by (auto simp add: loop_def)

subsection \<open>Lane indices stay in the lane table\<close>

text \<open>
  \<open>Math.random()\<close> lies in \<open>[0, 1)\<close>, so a spawned obstacle gets one of the three lanes,
  and a lane move keeps the player's lane index within 0..2: every read of \<open>LANES\<close> is
  in range.
\<close>

lemma spawn_lane_in_range:
  assumes "0 \<le> rnd_lane r" "rnd_lane r < 1"
  shows "obstacle.laneIndex (last (obstacles (spawnObstacle r s))) \<in> {0, 1, 2}"
    and "position_x (mesh (last (obstacles (spawnObstacle r s)))) \<in> {- 3, 0, 3}"
proof -
  have "0 \<le> \<lfloor>rnd_lane r * 3\<rfloor>" "\<lfloor>rnd_lane r * 3\<rfloor> < 3"
    using assms by (simp_all add: floor_less_iff)
  then have "\<lfloor>rnd_lane r * 3\<rfloor> = 0 \<or> \<lfloor>rnd_lane r * 3\<rfloor> = 1 \<or> \<lfloor>rnd_lane r * 3\<rfloor> = 2"
    by linarith
  then show "obstacle.laneIndex (last (obstacles (spawnObstacle r s))) \<in> {0, 1, 2}"
    and "position_x (mesh (last (obstacles (spawnObstacle r s)))) \<in> {- 3, 0, 3}"
    by (auto simp add: spawnObstacle_def Let_def LANES_def)
qed

lemma tryMoveLane_in_range:
  assumes "0 \<le> gameState.laneIndex s" "gameState.laneIndex s \<le> 2"
  shows "0 \<le> gameState.laneIndex (tryMoveLane delta s) \<and> gameState.laneIndex (tryMoveLane delta s) \<le> 2"
  using assms by (simp add: tryMoveLane_def Let_def)

subsection \<open>Lane moves\<close>

text \<open>
  C2, as stated, fails. The claim says a move request is ignored in every phase but
  Running. \<open>tryMoveLane\<close> only looks at \<open>gameOver\<close>: in the paused game (reached by
  pressing any key and then \<open>P\<close>) a move to the left changes the lane index from 1 to 0
  and the target from 0 to -3.
\<close>

theorem tryMoveLane_paused_counterexample:
  "phaseOf pausedAtLaneOne = Paused \<and> gameState.laneIndex pausedAtLaneOne = 1 \<and>
   gameState.laneIndex (tryMoveLane (- 1) pausedAtLaneOne) = 0 \<and>
   laneTargetX (tryMoveLane (- 1) pausedAtLaneOne) = - 3 \<and>
   tryMoveLane (- 1) pausedAtLaneOne \<noteq> pausedAtLaneOne"
proof -
  have s: "pausedAtLaneOne = (initialState 0)\<lparr>running := True, paused := True, player_x := 0\<rparr>"
    by (simp add: pausedAtLaneOne_def onKeyDown_def handleStartOrRestart_def startGame_def
        resetWorld_def togglePause_def initialState_def Let_def)
  have l: "gameState.laneIndex (tryMoveLane (- 1) pausedAtLaneOne) = 0"
    "laneTargetX (tryMoveLane (- 1) pausedAtLaneOne) = - 3"
    by (simp_all add: s tryMoveLane_def initialState_def Let_def LANES_def)
  have i: "gameState.laneIndex pausedAtLaneOne = 1"
    by (simp add: s initialState_def)
  have p: "phaseOf pausedAtLaneOne = Paused"
    by (simp add: s phaseOf_def initialState_def)
  from l i have "tryMoveLane (- 1) pausedAtLaneOne \<noteq> pausedAtLaneOne" by auto
  with l i p show ?thesis by simp
qed

text \<open>
  C2, amended: a move request changes nothing when the game is over or when the new lane
  index would leave 0..2. In every other case, also when the game is paused or has not
  started, it adds the direction to the lane index, takes the player's current x as the
  start of the interpolation, takes the new lane's position (-3, 0 or 3) as its target
  and sets the interpolation time to 0; nothing else changes.
\<close>

theorem tryMoveLane_contract:
  "(gameOver s \<or> gameState.laneIndex s + delta < 0 \<or> 2 < gameState.laneIndex s + delta
      \<longrightarrow> tryMoveLane delta s = s) \<and>
   (\<not> gameOver s \<and> 0 \<le> gameState.laneIndex s + delta \<and> gameState.laneIndex s + delta \<le> 2
      \<longrightarrow> tryMoveLane delta s =
            s\<lparr>laneIndex := gameState.laneIndex s + delta,
              laneStartX := player_x s,
              laneTargetX := 3 * (real_of_int (gameState.laneIndex s + delta) - 1),
              laneT := 0\<rparr>)"
proof -
  have lanes: "LANES ! nat k = 3 * (real_of_int k - 1)" if "0 \<le> k" "k \<le> 2" for k :: int
  proof -
    from that have "k = 0 \<or> k = 1 \<or> k = 2" by auto
    then show ?thesis by (auto simp add: LANES_def)
  qed
  show ?thesis
    by (auto simp add: tryMoveLane_def Let_def lanes)
qed

theorem tryMoveLane_contract_witness:
  "gameOver (endGame pausedAtLaneOne) \<and>
   tryMoveLane (- 1) (endGame pausedAtLaneOne) = endGame pausedAtLaneOne \<and>
   \<not> gameOver pausedAtLaneOne \<and> 0 \<le> gameState.laneIndex pausedAtLaneOne + (- 1) \<and>
   gameState.laneIndex pausedAtLaneOne + (- 1) \<le> 2 \<and>
   tryMoveLane (- 1) pausedAtLaneOne =
     pausedAtLaneOne\<lparr>laneIndex := 0, laneStartX := 0, laneTargetX := - 3, laneT := 0\<rparr>"
proof -
  have s: "pausedAtLaneOne = (initialState 0)\<lparr>running := True, paused := True, player_x := 0\<rparr>"
    by (simp add: pausedAtLaneOne_def onKeyDown_def handleStartOrRestart_def startGame_def
        resetWorld_def togglePause_def initialState_def Let_def)
  have a: "gameOver (endGame pausedAtLaneOne)"
    by (simp add: endGame_def Let_def)
  have b: "\<not> gameOver pausedAtLaneOne" "gameState.laneIndex pausedAtLaneOne = 1"
    "player_x pausedAtLaneOne = 0"
    by (simp_all add: s initialState_def)
  from a b tryMoveLane_contract [of "endGame pausedAtLaneOne" "- 1"]
    tryMoveLane_contract [of pausedAtLaneOne "- 1"]
  show ?thesis by simp
qed

subsection \<open>The collision test\<close>



subsection \<open>The top score at game over\<close>

lemma updateObstacles_storage:
  "storageLog (updateObstacles sfo time dt fwd s) = storageLog s \<or>
   (gameOver (updateObstacles sfo time dt fwd s) \<and>
    topScore (updateObstacles sfo time dt fwd s) = score s \<and>
    storageLog (updateObstacles sfo time dt fwd s) = \<lfloor>score s\<rfloor> # storageLog s)"
  by (simp add: updateObstacles_def endGame_def Let_def split: prod.split)

lemma loop_storage:
  "storageLog (loop sfo r time s) = storageLog s \<or>
   (gameOver (loop sfo r time s) \<and>
    topScore (loop sfo r time s) = score (loop sfo r time s) \<and>
    storageLog (loop sfo r time s) = \<lfloor>score (loop sfo r time s)\<rfloor> # storageLog s)"
proof (cases "running s \<and> \<not> paused s \<and> \<not> gameOver s")
  case True
  let ?dt = "frameDelta time s"
  let ?s2 = "laneInterpolation ?dt (scoreAndDifficulty ?dt (s\<lparr>lastTime := time\<rparr>))"
  let ?s3 = "spawnObstacles r ?dt ?s2"
  have l: "loop sfo r time s = updateObstacles sfo time ?dt (speed ?s2 * ?dt) ?s3"
    using True by (simp add: loop_simulated Let_def)
  have "storageLog ?s3 = storageLog s"
    by (simp add: spawnObstacles_fields laneInterpolation_fields scoreAndDifficulty_fields)
  moreover have "score (loop sfo r time s) = score ?s3"
    by (simp only: l updateObstacles_fields)
  ultimately show ?thesis
    using updateObstacles_storage [of sfo time ?dt "speed ?s2 * ?dt" ?s3]
    unfolding l by auto
next
  case False
  then show ?thesis by (auto simp add: loop_def Let_def)
qed

text \<open>
  C3, as stated, fails. The claim says the score is floored before it is compared with the
  top score. \<open>endGame\<close> compares the score as it is: with a score of 100.5 and a top
  score of 100 the floored score does not exceed the top score, and yet the top score
  becomes 100.5 and 100 is written to the store.
\<close>

theorem endGame_floor_counterexample:
  "score overByHalf = 100.5 \<and> topScore overByHalf = 100 \<and>
   \<not> real_of_int \<lfloor>score overByHalf\<rfloor> > topScore overByHalf \<and>
   topScore (endGame overByHalf) = 100.5 \<and>
   storageLog (endGame overByHalf) = 100 # storageLog overByHalf"
  by (simp add: overByHalf_def endGame_def startGame_def resetWorld_def initialState_def Let_def)

text \<open>
  C3, amended: at game over the score as it is (not floored) is compared with the top
  score. When it exceeds the top score, the top score becomes that score and its floor is
  written to the store, once; otherwise the top score stays and nothing is written. A run
  that ends with score 120.7 against a top score of 100 writes exactly 120. A frame writes
  to the store at most once, and only when it ends the game.
\<close>

theorem endGame_topScore:
  "gameOver (endGame s) \<and> \<not> running (endGame s) \<and>
   (topScore s < score s \<longrightarrow>
      topScore (endGame s) = score s \<and> storageLog (endGame s) = \<lfloor>score s\<rfloor> # storageLog s) \<and>
   (score s \<le> topScore s \<longrightarrow>
      topScore (endGame s) = topScore s \<and> storageLog (endGame s) = storageLog s) \<and>
   (score s = 120.7 \<and> topScore s = 100 \<longrightarrow> storageLog (endGame s) = 120 # storageLog s) \<and>
   (storageLog (loop setFromObject r time s) = storageLog s \<or>
    (gameOver (loop setFromObject r time s) \<and>
     topScore (loop setFromObject r time s) = score (loop setFromObject r time s) \<and>
     storageLog (loop setFromObject r time s) =
       \<lfloor>score (loop setFromObject r time s)\<rfloor> # storageLog s))"
proof -
  have "storageLog (endGame s) = 120 # storageLog s" if h: "score s = 120.7" "topScore s = 100"
  proof -
    have "\<lfloor>score s\<rfloor> = 120" by (subst h) simp
    moreover have "topScore s < score s" by (subst h)+ simp
    ultimately show ?thesis by (simp add: endGame_def Let_def)
  qed
  then show ?thesis
    using loop_storage [of setFromObject r time s] by (simp add: endGame_def Let_def)
qed

theorem endGame_topScore_witness:
  "topScore finalScore120 < score finalScore120 \<and>
   score finalScore120 = 120.7 \<and> topScore finalScore120 = 100 \<and>
   storageLog finalScore120 = [] \<and>
   topScore (endGame finalScore120) = 120.7 \<and>
   storageLog (endGame finalScore120) = [120] \<and>
   score (endGame finalScore120) \<le> topScore (endGame finalScore120) \<and>
   storageLog (endGame (endGame finalScore120)) = [120]"
proof -
  have a: "score finalScore120 = 120.7" "topScore finalScore120 = 100"
    "storageLog finalScore120 = []"
    by (simp_all add: finalScore120_def startGame_def resetWorld_def initialState_def)
  have b: "score (endGame finalScore120) = 120.7"
    by (simp add: endGame_fields a)
  have c: "topScore finalScore120 < score finalScore120" by (subst a)+ simp
  have d: "topScore (endGame finalScore120) = 120.7"
    "storageLog (endGame finalScore120) = [120]"
    using endGame_topScore [of finalScore120 unrotatedBox "halfRandoms 1" 16] a c by auto
  have e: "score (endGame finalScore120) \<le> topScore (endGame finalScore120)"
    by (simp only: b d)
  have f: "storageLog (endGame (endGame finalScore120)) = [120]"
    using endGame_topScore [of "endGame finalScore120" unrotatedBox "halfRandoms 1" 16] e d by auto
  show ?thesis using a c d e f by blast
qed

subsection \<open>Lane interpolation\<close>

lemma laneInterpolation_moving:
  assumes "laneT s < laneDuration s"
  shows "laneT (laneInterpolation dt s) = laneT s + dt"
    and "player_x (laneInterpolation dt s) =
      laneStartX s + (laneTargetX s - laneStartX s) *
        smoothstep (min 1 ((laneT s + dt) / laneDuration s))"
  using assms
  by (simp_all add: laneInterpolation_def Let_def lerp_def smoothstep_def power2_eq_square
      algebra_simps)

lemma laneInterpolation_rest:
  assumes "laneDuration s \<le> laneT s"
  shows "laneInterpolation dt s = s\<lparr>player_x := laneTargetX s\<rparr>"
  using assms by (simp add: laneInterpolation_def)

lemma laneInterpolation_rest_fold:
  assumes "laneDuration s \<le> laneT s"
  shows "fold laneInterpolation dts s = (if dts = [] then s else s\<lparr>player_x := laneTargetX s\<rparr>)"
  using assms
proof (induction dts arbitrary: s)
  case Nil
  then show ?case by simp
next
  case (Cons dt dts)
  let ?s = "s\<lparr>player_x := laneTargetX s\<rparr>"
  have "fold laneInterpolation (dt # dts) s = fold laneInterpolation dts ?s"
    using Cons.prems by (simp add: laneInterpolation_rest)
  also have "\<dots> = (if dts = [] then ?s else ?s\<lparr>player_x := laneTargetX ?s\<rparr>)"
    using Cons.prems by (intro Cons.IH) simp
  finally show ?case by simp
qed

lemma laneInterpolation_arrives:
  assumes "laneT s < laneDuration s" "laneDuration s \<le> laneT s + dt" "0 < laneDuration s"
  shows "player_x (laneInterpolation dt s) = laneTargetX s"
proof -
  have "1 \<le> (laneT s + dt) / laneDuration s"
    using assms by (simp add: le_divide_eq)
  then have "min 1 ((laneT s + dt) / laneDuration s) = 1" by simp
  then show ?thesis
    using assms(1) by (simp add: laneInterpolation_moving smoothstep_def)
qed

lemma loop_lane:
  assumes "running s" "\<not> paused s" "\<not> gameOver s"
  shows "player_x (loop sfo r time s) = player_x (laneInterpolation (frameDelta time s) s)"
    and "laneT (loop sfo r time s) = laneT (laneInterpolation (frameDelta time s) s)"
  using assms
  by (simp_all add: loop_simulated Let_def updateObstacles_fields spawnObstacles_fields
      laneInterpolation_def scoreAndDifficulty_fields)

text \<open>
  C6: while the interpolation time is below the duration, the lane step adds the frame
  delta to it and puts the player at the smoothstep point between the start and the target
  (the target itself once the new time reaches the duration). When the time has reached the
  duration the step puts the player on the target and leaves the time alone, so any number
  of further steps leaves the player on the target. A simulated frame moves the player
  exactly as the lane step does.
\<close>

theorem laneInterpolation_advance:
  "(laneT s < laneDuration s \<longrightarrow>
      laneT (laneInterpolation dt s) = laneT s + dt \<and>
      player_x (laneInterpolation dt s) =
        laneStartX s + (laneTargetX s - laneStartX s) *
          smoothstep (min 1 ((laneT s + dt) / laneDuration s))) \<and>
   (laneT s < laneDuration s \<and> laneDuration s \<le> laneT s + dt \<and> 0 < laneDuration s \<longrightarrow>
      player_x (laneInterpolation dt s) = laneTargetX s) \<and>
   (laneDuration s \<le> laneT s \<longrightarrow>
      player_x (laneInterpolation dt s) = laneTargetX s \<and>
      laneT (laneInterpolation dt s) = laneT s \<and>
      (dts \<noteq> [] \<longrightarrow> player_x (fold laneInterpolation dts s) = laneTargetX s)) \<and>
   (running s \<and> \<not> paused s \<and> \<not> gameOver s \<longrightarrow>
      player_x (loop setFromObject r time s) = player_x (laneInterpolation (frameDelta time s) s) \<and>
      laneT (loop setFromObject r time s) = laneT (laneInterpolation (frameDelta time s) s))"
  using laneInterpolation_moving [of s dt] laneInterpolation_arrives [of s dt]
    laneInterpolation_rest [of s dt] laneInterpolation_rest_fold [of s dts]
    loop_lane [of s setFromObject r time]
  by simp

lemma midMove_fields:
  "running midMove" "\<not> paused midMove" "\<not> gameOver midMove" "lastTime midMove = 0"
  "laneT midMove = 0" "laneDuration midMove = 0.1" "laneStartX midMove = 0"
  "laneTargetX midMove = 3"
  by (simp_all add: midMove_def tryMoveLane_def startGame_def resetWorld_def initialState_def
      Let_def LANES_def)

theorem laneInterpolation_advance_witness:
  "laneT midMove < laneDuration midMove \<and>
   laneT (laneInterpolation 0.016 midMove) = 0.016 \<and>
   player_x (laneInterpolation 0.016 midMove) = 0.205824 \<and>
   laneT (midMove\<lparr>laneT := 0.09\<rparr>) < laneDuration (midMove\<lparr>laneT := 0.09\<rparr>) \<and>
   laneDuration (midMove\<lparr>laneT := 0.09\<rparr>) \<le> laneT (midMove\<lparr>laneT := 0.09\<rparr>) + 0.016 \<and>
   player_x (laneInterpolation 0.016 (midMove\<lparr>laneT := 0.09\<rparr>)) = 3 \<and>
   laneDuration (midMove\<lparr>laneT := 0.106\<rparr>) \<le> laneT (midMove\<lparr>laneT := 0.106\<rparr>) \<and>
   player_x (laneInterpolation 0.016 (midMove\<lparr>laneT := 0.106\<rparr>)) = 3 \<and>
   player_x (fold laneInterpolation [0.016, 0.05] (midMove\<lparr>laneT := 0.106\<rparr>)) = 3 \<and>
   running midMove \<and> \<not> paused midMove \<and> \<not> gameOver midMove \<and>
   player_x (loop unrotatedBox (halfRandoms 1) 16 midMove) = 0.205824"
proof -
  have fd: "frameDelta 16 midMove = 0.016"
    by (simp add: frameDelta_def midMove_fields)
  have a: "laneT (laneInterpolation 0.016 midMove) = 0.016"
    "player_x (laneInterpolation 0.016 midMove) = 0.205824"
    "player_x (loop unrotatedBox (halfRandoms 1) 16 midMove) = 0.205824"
    using laneInterpolation_advance [of midMove "0.016" "[]" unrotatedBox "halfRandoms 1" 16]
    by (simp_all add: midMove_fields fd smoothstep_def power2_eq_square)
  have b: "player_x (laneInterpolation 0.016 (midMove\<lparr>laneT := 0.09\<rparr>)) = 3"
    using laneInterpolation_advance
      [of "midMove\<lparr>laneT := 0.09\<rparr>" "0.016" "[]" unrotatedBox "halfRandoms 1" 16]
    by (simp add: midMove_fields smoothstep_def)
  have c: "player_x (laneInterpolation 0.016 (midMove\<lparr>laneT := 0.106\<rparr>)) = 3"
    "player_x (fold laneInterpolation [0.016, 0.05] (midMove\<lparr>laneT := 0.106\<rparr>)) = 3"
    using laneInterpolation_advance
      [of "midMove\<lparr>laneT := 0.106\<rparr>" "0.016" "[0.016, 0.05]" unrotatedBox "halfRandoms 1" 16]
    by (simp_all add: midMove_fields)
  show ?thesis
    using a b c by (simp add: midMove_fields)
qed

subsection \<open>The difficulty curve\<close>

lemma command_difficulty:
  "difficulty (tryMoveLane delta s) = difficulty s"
  "difficulty (togglePause now s) = difficulty s"
  "difficulty (startGame now s) = 1"
  by (simp_all add: tryMoveLane_def togglePause_def startGame_def resetWorld_def Let_def)

lemma loop_frame:
  assumes "running s" "\<not> paused s" "\<not> gameOver s"
  shows "difficulty (loop sfo r time s) = difficulty s + 0.03 * frameDelta time s"
    and "speed (loop sfo r time s) = 6 + 4 * difficulty (loop sfo r time s)"
    and "spawnInterval (loop sfo r time s) = max 0.5 (1.2 - 0.05 * difficulty (loop sfo r time s))"
    and "score (loop sfo r time s) = score s + frameDelta time s * (8 + 2 * difficulty s)"
  using assms
  by (simp_all add: loop_simulated Let_def updateObstacles_fields spawnObstacles_fields
      laneInterpolation_fields scoreAndDifficulty_fields algebra_simps)

lemma loop_not_simulated:
  assumes "\<not> (running s \<and> \<not> paused s \<and> \<not> gameOver s)"
  shows "difficulty (loop sfo r time s) = difficulty s"
  using assms by (auto simp add: loop_def Let_def)

lemma step_difficulty:
  "difficulty (step sfo ev s) =
     (if restarts ev s then 1 else difficulty s + 0.03 * simulatedTime ev s)"
proof (cases ev)
  case (AnimationFrame r time)
  then show ?thesis
    by (simp add: loop_frame loop_not_simulated)
next
  case (KeyDown code now)
  then show ?thesis
    by (cases code)
      (simp_all add: onKeyDown_def handleStartOrRestart_def command_difficulty Let_def)
next
  case (TouchStart clientX clientY now)
  then show ?thesis
    by (simp add: onTouchStart_def handleStartOrRestart_def command_difficulty)
next
  case (TouchEnd clientX clientY)
  then show ?thesis
    by (simp add: onTouchEnd_def command_difficulty Let_def)
next
  case (Click now)
  then show ?thesis
    by (simp add: onClick_def command_difficulty)
qed

lemma run_difficulty:
  assumes "difficulty s = 1 + 0.03 * t"
  shows "difficulty (run sfo evs s) = 1 + 0.03 * runningTime sfo evs s t"
  using assms
proof (induction evs arbitrary: s t)
  case Nil
  then show ?case by (simp add: run_def)
next
  case (Cons ev evs)
  let ?t = "if restarts ev s then 0 else t + simulatedTime ev s"
  have "difficulty (step sfo ev s) = 1 + 0.03 * ?t"
    using Cons.prems by (simp add: step_difficulty algebra_simps)
  from Cons.IH [OF this] show ?case
    by (simp add: run_def)
qed

text \<open>
  C7: a simulated frame adds 0.03 times the frame delta to the difficulty (so the
  difficulty does not fall when the delta is not negative), sets the speed to
  6 + 4 difficulty and the spawn interval to max(0.5, 1.2 - 0.05 difficulty), and adds the
  frame delta times (8 + 2 difficulty) to the score, with the difficulty of the frame
  before. A frame of a paused game changes nothing. A start sets the difficulty to 1, and
  after any sequence of frames and inputs the difficulty is 1 + 0.03 times the simulated
  running time since the last start.
\<close>

theorem difficulty_curve:
  "(running s \<and> \<not> paused s \<and> \<not> gameOver s \<longrightarrow>
      difficulty (loop setFromObject r time s) = difficulty s + 0.03 * frameDelta time s \<and>
      speed (loop setFromObject r time s) = 6 + 4 * difficulty (loop setFromObject r time s) \<and>
      spawnInterval (loop setFromObject r time s) =
        max 0.5 (1.2 - 0.05 * difficulty (loop setFromObject r time s)) \<and>
      score (loop setFromObject r time s) =
        score s + frameDelta time s * (8 + 2 * difficulty s) \<and>
      (0 \<le> frameDelta time s \<longrightarrow> difficulty s \<le> difficulty (loop setFromObject r time s))) \<and>
   (paused s \<longrightarrow> loop setFromObject r time s = s) \<and>
   difficulty (startGame now s) = 1 \<and>
   difficulty (run setFromObject evs (initialState storedTop)) =
     1 + 0.03 * runningTime setFromObject evs (initialState storedTop) 0"
proof -
  have "difficulty (initialState storedTop) = 1 + 0.03 * 0"
    by (simp add: initialState_def)
  from run_difficulty [OF this, of setFromObject evs]
  show ?thesis
    using loop_frame [of s setFromObject r time] loop_skipped [of s setFromObject r time]
    by (simp add: command_difficulty)
qed

lemma justStarted_fields:
  "running justStarted" "\<not> paused justStarted" "\<not> gameOver justStarted"
  "lastTime justStarted = 0" "difficulty justStarted = 1" "score justStarted = 0"
  "obstacles justStarted = []" "spawnTimer justStarted = 0" "blocksSpawned justStarted = 0"
  "laneT justStarted = 0" "laneDuration justStarted = 0.1"
  by (simp_all add: justStarted_def startGame_def resetWorld_def initialState_def)

theorem difficulty_curve_witness:
  "running justStarted \<and> \<not> paused justStarted \<and> \<not> gameOver justStarted \<and>
   0 \<le> frameDelta 16 justStarted \<and>
   difficulty (loop unrotatedBox (halfRandoms 1) 16 justStarted) = 1.00048 \<and>
   speed (loop unrotatedBox (halfRandoms 1) 16 justStarted) = 10.00192 \<and>
   spawnInterval (loop unrotatedBox (halfRandoms 1) 16 justStarted) = 1.149976 \<and>
   score (loop unrotatedBox (halfRandoms 1) 16 justStarted) = 0.16 \<and>
   difficulty justStarted \<le> difficulty (loop unrotatedBox (halfRandoms 1) 16 justStarted) \<and>
   paused pausedAtLaneOne \<and>
   loop unrotatedBox (halfRandoms 1) 16 pausedAtLaneOne = pausedAtLaneOne \<and>
   difficulty (run unrotatedBox pauseAndResume (initialState 0)) = 1.00096"
proof -
  have fd: "frameDelta 16 justStarted = 0.016"
    by (simp add: frameDelta_def justStarted_fields)
  have p: "paused pausedAtLaneOne"
    by (simp add: pausedAtLaneOne_def onKeyDown_def handleStartOrRestart_def startGame_def
        resetWorld_def togglePause_def initialState_def Let_def)
  have rt: "runningTime unrotatedBox pauseAndResume (initialState 0) 0 = 0.032"
    by (simp add: pauseAndResume_def initialState_def onKeyDown_def handleStartOrRestart_def
        startGame_def resetWorld_def loop_def frameDelta_def Let_def scoreAndDifficulty_def
        laneInterpolation_def spawnObstacles_def updateObstacles_def togglePause_def
        tryMoveLane_def)
  have a: "difficulty (loop unrotatedBox (halfRandoms 1) 16 justStarted) = 1.00048"
    "speed (loop unrotatedBox (halfRandoms 1) 16 justStarted) = 10.00192"
    "spawnInterval (loop unrotatedBox (halfRandoms 1) 16 justStarted) = 1.149976"
    "score (loop unrotatedBox (halfRandoms 1) 16 justStarted) = 0.16"
    "difficulty justStarted \<le> difficulty (loop unrotatedBox (halfRandoms 1) 16 justStarted)"
    using difficulty_curve [of justStarted unrotatedBox "halfRandoms 1" 16 0 "[]" 0]
    by (simp_all add: justStarted_fields fd)
  have b: "loop unrotatedBox (halfRandoms 1) 16 pausedAtLaneOne = pausedAtLaneOne"
    "difficulty (run unrotatedBox pauseAndResume (initialState 0)) = 1.00096"
    using difficulty_curve [of pausedAtLaneOne unrotatedBox "halfRandoms 1" 16 0 pauseAndResume 0] p
    by (simp_all add: rt)
  show ?thesis
    using a b p by (simp add: justStarted_fields fd)
qed

subsection \<open>The obstacle loop\<close>

lemma loop_as_sections:
  assumes "running s" "\<not> paused s" "\<not> gameOver s"
  shows "loop sfo r time s =
    updateObstacles sfo time (frameDelta time s)
      (speed (beforeObstacles r time s) * frameDelta time s) (beforeObstacles r time s)"
  using assms by (simp add: loop_simulated beforeObstacles_def Let_def spawnObstacles_fields)

lemma obstaclesLoop_append:
  "length xs = n \<Longrightarrow>
   obstaclesLoop sfo time dt fwd px n (xs @ zs) =
     (case obstaclesLoop sfo time dt fwd px n xs of (ys, h) \<Rightarrow> (ys @ zs, h))"
proof (induction n arbitrary: xs zs)
  case 0
  then show ?case by simp
next
  case (Suc n)
  then obtain xs' x where xs: "xs = xs' @ [x]" and len: "length xs' = n"
    by (metis length_Suc_conv_rev)
  let ?ob = "updateObstacle time dt fwd n x"
  have nth: "(xs @ zs) ! n = x" "xs ! n = x"
    using len by (simp_all add: xs nth_append)
  have cut: "take n (xs @ zs) @ drop (Suc n) (xs @ zs) = xs' @ zs"
    "take n xs @ drop (Suc n) xs = xs'"
    using len by (simp_all add: xs)
  have upd: "(xs @ zs)[n := ?ob] = xs' @ (?ob # zs)" "xs[n := ?ob] = xs' @ [?ob]"
    using len by (simp_all add: xs list_update_append)
  have step_xz: "obstaclesLoop sfo time dt fwd px (Suc n) (xs @ zs) =
      (if position_z (mesh ?ob) > 10 then obstaclesLoop sfo time dt fwd px n (xs' @ zs)
       else if intersectsCube sfo (mesh ?ob) px player_y player_z 0.7
         then (xs' @ (?ob # zs), True)
       else obstaclesLoop sfo time dt fwd px n (xs' @ (?ob # zs)))"
    by (simp only: obstaclesLoop.simps nth cut upd Let_def)
  have step_x: "obstaclesLoop sfo time dt fwd px (Suc n) xs =
      (if position_z (mesh ?ob) > 10 then obstaclesLoop sfo time dt fwd px n xs'
       else if intersectsCube sfo (mesh ?ob) px player_y player_z 0.7
         then (xs' @ [?ob], True)
       else obstaclesLoop sfo time dt fwd px n (xs' @ [?ob]))"
    by (simp only: obstaclesLoop.simps nth cut upd Let_def)
  obtain ys h where r: "obstaclesLoop sfo time dt fwd px n xs' = (ys, h)"
    by fastforce
  show ?case
    unfolding step_xz step_x
    by (simp add: Suc.IH [OF len] r)
qed

lemma obstaclesLoop_snoc:
  "obstaclesLoop sfo time dt fwd px (Suc (length xs)) (xs @ [x]) =
     (let ob = updateObstacle time dt fwd (length xs) x in
      if position_z (mesh ob) > 10 then obstaclesLoop sfo time dt fwd px (length xs) xs
      else if intersectsCube sfo (mesh ob) px player_y player_z 0.7 then (xs @ [ob], True)
      else (case obstaclesLoop sfo time dt fwd px (length xs) xs of
              (ys, h) \<Rightarrow> (ys @ [ob], h)))"
proof -
  let ?ob = "updateObstacle time dt fwd (length xs) x"
  have "obstaclesLoop sfo time dt fwd px (length xs) (xs @ [?ob]) =
      (case obstaclesLoop sfo time dt fwd px (length xs) xs of (ys, h) \<Rightarrow> (ys @ [?ob], h))"
    by (rule obstaclesLoop_append) simp
  then show ?thesis
    by (simp add: Let_def)
qed

lemma allObstacles_Nil: "allObstacles sfo time dt fwd px [] = ([], False)"
  by (simp add: allObstacles_def)

lemma allObstacles_snoc:
  "allObstacles sfo time dt fwd px (xs @ [x]) =
     (let ob = updateObstacle time dt fwd (length xs) x in
      if position_z (mesh ob) > 10 then allObstacles sfo time dt fwd px xs
      else if intersectsCube sfo (mesh ob) px player_y player_z 0.7 then (xs @ [ob], True)
      else (fst (allObstacles sfo time dt fwd px xs) @ [ob],
            snd (allObstacles sfo time dt fwd px xs)))"
  unfolding allObstacles_def length_append_singleton obstaclesLoop_snoc
  by (simp add: Let_def split: prod.split)

lemma allObstacles_length:
  "length (fst (allObstacles sfo time dt fwd px os)) \<le> length os"
proof (induction os rule: rev_induct)
  case Nil
  then show ?case by (simp add: allObstacles_Nil)
next
  case (snoc x xs)
  then show ?case
    by (simp add: allObstacles_snoc Let_def)
qed

lemma ex_index_snoc:
  "(\<exists>i<length (xs @ [x]). P i ((xs @ [x]) ! i)) \<longleftrightarrow>
     P (length xs) x \<or> (\<exists>i<length xs. P i (xs ! i))"
proof
  assume "\<exists>i<length (xs @ [x]). P i ((xs @ [x]) ! i)"
  then obtain i where i: "i < Suc (length xs)" "P i ((xs @ [x]) ! i)" by auto
  show "P (length xs) x \<or> (\<exists>i<length xs. P i (xs ! i))"
  proof (cases "i = length xs")
    case True
    with i show ?thesis by simp
  next
    case False
    with i have "i < length xs" by simp
    with i show ?thesis by (auto simp add: nth_append)
  qed
next
  assume "P (length xs) x \<or> (\<exists>i<length xs. P i (xs ! i))"
  then show "\<exists>i<length (xs @ [x]). P i ((xs @ [x]) ! i)"
  proof
    assume "P (length xs) x"
    then have "P (length xs) ((xs @ [x]) ! length xs)" by simp
    then show ?thesis by (intro exI [of _ "length xs"]) simp
  next
    assume "\<exists>i<length xs. P i (xs ! i)"
    then obtain i where "i < length xs" "P i (xs ! i)" by auto
    then have "i < length (xs @ [x]) \<and> P i ((xs @ [x]) ! i)" by (simp add: nth_append)
    then show ?thesis by blast
  qed
qed

lemma allObstacles_hit:
  "snd (allObstacles sfo time dt fwd px os) \<longleftrightarrow>
     (\<exists>i<length os. collides sfo time dt fwd px i (os ! i))"
proof (induction os rule: rev_induct)
  case Nil
  then show ?case by (simp add: allObstacles_Nil)
next
  case (snoc x xs)
  show ?case
    unfolding ex_index_snoc using snoc.IH
    by (simp add: allObstacles_snoc collides_def Let_def)
qed

lemma allObstacles_first:
  assumes "i < length os" "collides sfo time dt fwd px i (os ! i)"
    and "\<forall>j. i < j \<and> j < length os \<longrightarrow> \<not> collides sfo time dt fwd px j (os ! j)"
  shows "i < length (fst (allObstacles sfo time dt fwd px os)) \<and>
    take i (fst (allObstacles sfo time dt fwd px os)) = take i os \<and>
    fst (allObstacles sfo time dt fwd px os) ! i = updateObstacle time dt fwd i (os ! i)"
  using assms
proof (induction os rule: rev_induct)
  case Nil
  then show ?case by simp
next
  case (snoc x xs)
  let ?ob = "updateObstacle time dt fwd (length xs) x"
  let ?ys = "fst (allObstacles sfo time dt fwd px xs)"
  show ?case
  proof (cases "i = length xs")
    case True
    with snoc.prems(2) have "collides sfo time dt fwd px (length xs) x" by simp
    then have "allObstacles sfo time dt fwd px (xs @ [x]) = (xs @ [?ob], True)"
      by (simp add: allObstacles_snoc collides_def Let_def)
    then show ?thesis using True by simp
  next
    case False
    with snoc.prems(1) have i: "i < length xs" by simp
    then have c: "collides sfo time dt fwd px i (xs ! i)"
      using snoc.prems(2) by (simp add: nth_append)
    have later: "\<forall>j. i < j \<and> j < length xs \<longrightarrow> \<not> collides sfo time dt fwd px j (xs ! j)"
    proof (intro allI impI)
      fix j assume j: "i < j \<and> j < length xs"
      then have "\<not> collides sfo time dt fwd px j ((xs @ [x]) ! j)"
        using snoc.prems(3) by simp
      with j show "\<not> collides sfo time dt fwd px j (xs ! j)" by (simp add: nth_append)
    qed
    have last: "\<not> collides sfo time dt fwd px (length xs) x"
      using snoc.prems(3) i by (metis length_append_singleton lessI nth_append_length)
    from snoc.IH [OF i c later] have ih: "i < length ?ys" "take i ?ys = take i xs"
      "?ys ! i = updateObstacle time dt fwd i (xs ! i)" by simp_all
    have "fst (allObstacles sfo time dt fwd px (xs @ [x])) = ?ys \<or>
      fst (allObstacles sfo time dt fwd px (xs @ [x])) = ?ys @ [?ob]"
      using last by (simp add: allObstacles_snoc collides_def Let_def)
    then show ?thesis
      using ih i by (auto simp add: nth_append)
  qed
qed

subsection \<open>Falling and landing\<close>

text \<open>
  One update of a falling obstacle: the velocity gets -25 dt, the height gets the new
  velocity times dt, and the obstacle lands when that height is at most
  0.5 + scale / 2. A spawned mesh has scale 1, its height is in the geometry, and no update
  changes either.
\<close>

lemma updateObstacle_falling:
  assumes "falling ob" "\<not> landed ob"
  shows "position_y (mesh ob) + (vy ob - 25 * dt) * dt \<le> 0.5 + scale_y (mesh ob) / 2 \<Longrightarrow>
      landed (updateObstacle time dt fwd i ob) \<and>
      \<not> falling (updateObstacle time dt fwd i ob) \<and>
      vy (updateObstacle time dt fwd i ob) = 0 \<and>
      position_y (mesh (updateObstacle time dt fwd i ob)) = 0.5 + scale_y (mesh ob) / 2"
    and "\<not> position_y (mesh ob) + (vy ob - 25 * dt) * dt \<le> 0.5 + scale_y (mesh ob) / 2 \<Longrightarrow>
      \<not> landed (updateObstacle time dt fwd i ob) \<and>
      falling (updateObstacle time dt fwd i ob) \<and>
      vy (updateObstacle time dt fwd i ob) = vy ob - 25 * dt \<and>
      position_y (mesh (updateObstacle time dt fwd i ob)) =
        position_y (mesh ob) + (vy ob - 25 * dt) * dt"
  using assms by (simp_all add: updateObstacle_def Let_def)

lemma updateObstacle_size:
  "scale_y (mesh (updateObstacle time dt fwd i ob)) = scale_y (mesh ob)"
  "geometry_height (mesh (updateObstacle time dt fwd i ob)) = geometry_height (mesh ob)"
  by (simp_all add: updateObstacle_def Let_def)

lemma spawnObstacle_size:
  "scale_y (mesh (last (obstacles (spawnObstacle r s)))) = 1"
  "geometry_height (mesh (last (obstacles (spawnObstacle r s)))) =
     0.8 + rnd_h r * 1.2 * min 2 (0.8 + difficulty s * 0.1)"
  by (simp_all add: spawnObstacle_def Let_def)

text \<open>
  C1, on the code: the obstacle spawned with all random numbers one half at difficulty 1 has
  a geometry height of 1.34 and, like every spawned mesh, scale 1. Falling from 9.5 with
  frames of 40 ms it is at height 1.1 with velocity -20 after 20 updates; each update adds
  -25 dt to the velocity and velocity times dt to the height. The next update lands it:
  the velocity becomes 0 and the height becomes 0.5 + scale / 2 = 1, not half of its own
  height 0.67 above the ground.
\<close>

theorem landing_height_example:
  "geometry_height (mesh spawnedHalf) = 1.34 \<and> scale_y (mesh spawnedHalf) = 1 \<and>
   position_y (mesh spawnedHalf) = 9.5 \<and> falling spawnedHalf \<and> \<not> landed spawnedHalf \<and>
   falling ((updateObstacle 0 0.04 0.4 0 ^^ 20) spawnedHalf) \<and>
   vy ((updateObstacle 0 0.04 0.4 0 ^^ 20) spawnedHalf) = - 20 \<and>
   position_y (mesh ((updateObstacle 0 0.04 0.4 0 ^^ 20) spawnedHalf)) = 1.1 \<and>
   landed ((updateObstacle 0 0.04 0.4 0 ^^ 21) spawnedHalf) \<and>
   vy ((updateObstacle 0 0.04 0.4 0 ^^ 21) spawnedHalf) = 0 \<and>
   position_y (mesh ((updateObstacle 0 0.04 0.4 0 ^^ 21) spawnedHalf)) = 1 \<and>
   geometry_height (mesh ((updateObstacle 0 0.04 0.4 0 ^^ 21) spawnedHalf)) / 2 = 0.67"
  by (simp add: spawnedHalf_def spawnObstacle_def halfRandoms_def startGame_def resetWorld_def
      initialState_def updateObstacle_def LANES_def Let_def eval_nat_numeral)

lemma updateObstacle_id: "obstacleId (updateObstacle time dt fwd i ob) = obstacleId ob"
  by (simp add: updateObstacle_def obstacleId_def Let_def)

lemma updateObstacle_stays: "stays ob (updateObstacle time dt fwd i ob)"
  by (simp add: updateObstacle_def stays_def Let_def)

lemma stays_refl: "stays ob ob"
  by (simp add: stays_def)

lemma stays_trans: "stays a b \<Longrightarrow> stays b c \<Longrightarrow> stays a c"
  by (auto simp add: stays_def)

text \<open>Every obstacle the loop leaves in the list is an obstacle of the list it started
  with, untouched or updated once.\<close>

lemma allObstacles_origin:
  assumes "ob' \<in> set (fst (allObstacles sfo time dt fwd px os))"
  shows "\<exists>i<length os. ob' = os ! i \<or> ob' = updateObstacle time dt fwd i (os ! i)"
  using assms
proof (induction os rule: rev_induct)
  case Nil
  then show ?case by (simp add: allObstacles_Nil)
next
  case (snoc x xs)
  let ?ob = "updateObstacle time dt fwd (length xs) x"
  let ?P = "\<lambda>i y. ob' = y \<or> ob' = updateObstacle time dt fwd i y"
  from snoc.prems have "ob' \<in> set (fst (allObstacles sfo time dt fwd px xs)) \<or> ob' = ?ob
      \<or> ob' \<in> set xs"
    by (auto simp add: allObstacles_snoc Let_def split: if_splits)
  then consider "ob' \<in> set (fst (allObstacles sfo time dt fwd px xs))" | "ob' = ?ob"
    | "ob' \<in> set xs" by blast
  then have "?P (length xs) x \<or> (\<exists>i<length xs. ?P i (xs ! i))"
  proof cases
    case 1
    then show ?thesis using snoc.IH by blast
  next
    case 2
    then show ?thesis by simp
  next
    case 3
    then obtain i where "i < length xs" "xs ! i = ob'" by (auto simp add: in_set_conv_nth)
    then show ?thesis by blast
  qed
  then show ?case
    using ex_index_snoc [of xs x ?P] by simp
qed

lemma allObstacles_ids:
  "set (map obstacleId (fst (allObstacles sfo time dt fwd px os))) \<subseteq> set (map obstacleId os)"
proof
  fix k
  assume "k \<in> set (map obstacleId (fst (allObstacles sfo time dt fwd px os)))"
  then obtain ob' where ob': "ob' \<in> set (fst (allObstacles sfo time dt fwd px os))"
    "k = obstacleId ob'" by auto
  from allObstacles_origin [OF ob'(1)] obtain i where
    i: "i < length os" "ob' = os ! i \<or> ob' = updateObstacle time dt fwd i (os ! i)" by blast
  then have "obstacleId ob' = obstacleId (os ! i)"
    by (auto simp add: updateObstacle_id)
  with i(1) ob'(2) show "k \<in> set (map obstacleId os)"
    by auto
qed

lemma allObstacles_distinct:
  assumes "distinct (map obstacleId os)"
  shows "distinct (map obstacleId (fst (allObstacles sfo time dt fwd px os)))"
  using assms
proof (induction os rule: rev_induct)
  case Nil
  then show ?case by (simp add: allObstacles_Nil)
next
  case (snoc x xs)
  let ?ob = "updateObstacle time dt fwd (length xs) x"
  let ?ys = "fst (allObstacles sfo time dt fwd px xs)"
  from snoc.prems have d: "distinct (map obstacleId xs)" and n: "obstacleId x \<notin> obstacleId ` set xs"
    by simp_all
  have ys: "distinct (map obstacleId ?ys)" using snoc.IH [OF d] .
  have "obstacleId ?ob \<notin> obstacleId ` set ?ys"
    using allObstacles_ids [of sfo time dt fwd px xs] n by (auto simp add: updateObstacle_id)
  with ys have a: "distinct (map obstacleId (?ys @ [?ob]))" by simp
  have b: "distinct (map obstacleId (xs @ [?ob]))"
    using d n by (simp add: updateObstacle_id)
  show ?case
    using a b ys by (simp add: allObstacles_snoc Let_def)
qed

lemma allObstacles_stays:
  assumes "distinct (map obstacleId os)"
    and "ob \<in> set os"
    and "ob' \<in> set (fst (allObstacles sfo time dt fwd px os))"
    and "obstacleId ob' = obstacleId ob"
  shows "stays ob ob'"
proof -
  from allObstacles_origin [OF assms(3)] obtain i where
    i: "i < length os" "ob' = os ! i \<or> ob' = updateObstacle time dt fwd i (os ! i)" by blast
  then have "obstacleId (os ! i) = obstacleId ob"
    using assms(4) by (auto simp add: updateObstacle_id)
  moreover from assms(2) obtain j where j: "j < length os" "os ! j = ob"
    by (auto simp add: in_set_conv_nth)
  ultimately have "map obstacleId os ! i = map obstacleId os ! j"
    using i(1) by simp
  with assms(1) i(1) j(1) have "i = j"
    using nth_eq_iff_index_eq [of "map obstacleId os" i j] by simp
  with i(2) j(2) show ?thesis
    by (auto simp add: stays_refl updateObstacle_stays)
qed

lemma updateObstacles_obstacles:
  "obstacles (updateObstacles sfo time dt fwd s) =
     fst (allObstacles sfo time dt fwd (player_x s) (obstacles s))"
  by (simp add: updateObstacles_def allObstacles_def endGame_fields Let_def split: prod.split)

lemma beforeObstacles_obstacles:
  "obstacles (beforeObstacles r time s) = obstacles s \<or>
   (\<exists>ob. obstacleId ob = new_id r \<and> \<not> landed ob \<and>
      obstacles (beforeObstacles r time s) = obstacles s @ [ob])"
  by (simp add: beforeObstacles_def spawnObstacles_def spawnObstacle_def Let_def
      laneInterpolation_fields scoreAndDifficulty_fields obstacleId_def)

lemma command_obstacles:
  "obstacles (tryMoveLane delta s) = obstacles s"
  "obstacles (togglePause now s) = obstacles s"
  "obstacles (startGame now s) = []"
  by (simp_all add: tryMoveLane_def togglePause_def startGame_def resetWorld_def Let_def)

lemma input_obstacles:
  "obstacles (onKeyDown code now s) = obstacles s \<or> obstacles (onKeyDown code now s) = []"
  "obstacles (onTouchStart cx cy now s) = obstacles s \<or> obstacles (onTouchStart cx cy now s) = []"
  "obstacles (onTouchEnd cx cy s) = obstacles s"
  "obstacles (onClick now s) = obstacles s"
  by (simp_all add: onKeyDown_def onTouchStart_def onTouchEnd_def onClick_def
      handleStartOrRestart_def command_obstacles Let_def)

text \<open>One event: where the obstacles of the new state come from.\<close>

lemma step_obstacles:
  "obstacles (step sfo ev s) = obstacles s \<or> obstacles (step sfo ev s) = [] \<or>
   (\<exists>r time os. ev = AnimationFrame r time \<and>
      (os = obstacles s \<or> (\<exists>ob. obstacleId ob = new_id r \<and> os = obstacles s @ [ob])) \<and>
      obstacles (step sfo ev s) =
        fst (allObstacles sfo time (frameDelta time s)
               (speed (beforeObstacles r time s) * frameDelta time s)
               (player_x (beforeObstacles r time s)) os))"
proof (cases ev)
  case (AnimationFrame r time)
  show ?thesis
  proof (cases "running s \<and> \<not> paused s \<and> \<not> gameOver s")
    case True
    then have "obstacles (step sfo ev s) =
        fst (allObstacles sfo time (frameDelta time s)
               (speed (beforeObstacles r time s) * frameDelta time s)
               (player_x (beforeObstacles r time s)) (obstacles (beforeObstacles r time s)))"
      by (simp add: AnimationFrame loop_as_sections updateObstacles_obstacles)
    then show ?thesis
      using beforeObstacles_obstacles [of r time s] AnimationFrame by metis
  next
    case False
    then have "obstacles (step sfo ev s) = obstacles s"
      by (auto simp add: AnimationFrame loop_def Let_def)
    then show ?thesis by simp
  qed
next
  case (KeyDown code now)
  then show ?thesis using input_obstacles(1) [of code now s] by auto
next
  case (TouchStart cx cy now)
  then show ?thesis using input_obstacles(2) [of cx cy now s] by auto
next
  case (TouchEnd cx cy)
  then show ?thesis by (simp add: input_obstacles)
next
  case (Click now)
  then show ?thesis by (simp add: input_obstacles)
qed

lemma step_ids:
  "set (obstacleIds (step sfo ev s)) \<subseteq> set (obstacleIds s) \<union> set (eventIds ev)"
proof -
  from step_obstacles [of sfo ev s]
  consider "obstacles (step sfo ev s) = obstacles s" | "obstacles (step sfo ev s) = []"
    | r time os where "ev = AnimationFrame r time"
      "os = obstacles s \<or> (\<exists>ob. obstacleId ob = new_id r \<and> os = obstacles s @ [ob])"
      "obstacles (step sfo ev s) =
        fst (allObstacles sfo time (frameDelta time s)
               (speed (beforeObstacles r time s) * frameDelta time s)
               (player_x (beforeObstacles r time s)) os)"
    by blast
  then show ?thesis
  proof cases
    case 1
    then show ?thesis by (simp add: obstacleIds_def)
  next
    case 2
    then show ?thesis by (simp add: obstacleIds_def)
  next
    case 3
    have "set (map obstacleId os) \<subseteq> set (obstacleIds s) \<union> {new_id r}"
      using 3(2) by (auto simp add: obstacleIds_def)
    moreover have "set (obstacleIds (step sfo ev s)) \<subseteq> set (map obstacleId os)"
      unfolding obstacleIds_def 3(3) by (rule allObstacles_ids)
    ultimately show ?thesis
      by (auto simp add: 3(1))
  qed
qed

lemma step_distinct:
  assumes "distinct (obstacleIds s @ eventIds ev)"
  shows "distinct (obstacleIds (step sfo ev s))"
proof -
  from step_obstacles [of sfo ev s]
  consider "obstacles (step sfo ev s) = obstacles s" | "obstacles (step sfo ev s) = []"
    | r time os where "ev = AnimationFrame r time"
      "os = obstacles s \<or> (\<exists>ob. obstacleId ob = new_id r \<and> os = obstacles s @ [ob])"
      "obstacles (step sfo ev s) =
        fst (allObstacles sfo time (frameDelta time s)
               (speed (beforeObstacles r time s) * frameDelta time s)
               (player_x (beforeObstacles r time s)) os)"
    by blast
  then show ?thesis
  proof cases
    case 1
    then show ?thesis using assms by (simp add: obstacleIds_def)
  next
    case 2
    then show ?thesis by (simp add: obstacleIds_def)
  next
    case 3
    have "distinct (map obstacleId os)"
      using 3(2) assms by (auto simp add: obstacleIds_def 3(1))
    then show ?thesis
      unfolding obstacleIds_def 3(3) by (rule allObstacles_distinct)
  qed
qed

lemma step_stays:
  assumes "distinct (obstacleIds s @ eventIds ev)"
    and "ob \<in> set (obstacles s)"
    and "ob' \<in> set (obstacles (step sfo ev s))"
    and "obstacleId ob' = obstacleId ob"
  shows "stays ob ob'"
proof -
  from step_obstacles [of sfo ev s]
  consider "obstacles (step sfo ev s) = obstacles s" | "obstacles (step sfo ev s) = []"
    | r time os where "ev = AnimationFrame r time"
      "os = obstacles s \<or> (\<exists>ob. obstacleId ob = new_id r \<and> os = obstacles s @ [ob])"
      "obstacles (step sfo ev s) =
        fst (allObstacles sfo time (frameDelta time s)
               (speed (beforeObstacles r time s) * frameDelta time s)
               (player_x (beforeObstacles r time s)) os)"
    by blast
  then show ?thesis
  proof cases
    case 1
    have d: "distinct (map obstacleId (obstacles s))"
      using assms(1) by (simp add: obstacleIds_def)
    from assms(2) obtain i where i: "i < length (obstacles s)" "obstacles s ! i = ob"
      by (auto simp add: in_set_conv_nth)
    from assms(3) 1 obtain j where j: "j < length (obstacles s)" "obstacles s ! j = ob'"
      by (auto simp add: in_set_conv_nth)
    have "i = j"
      using nth_eq_iff_index_eq [of "map obstacleId (obstacles s)" i j] d i j assms(4) by simp
    with i j show ?thesis by (simp add: stays_refl)
  next
    case 2
    with assms(3) show ?thesis by simp
  next
    case 3
    have d: "distinct (map obstacleId os)"
      using 3(2) assms(1) by (auto simp add: obstacleIds_def 3(1))
    have m: "ob \<in> set os"
      using 3(2) assms(2) by auto
    show ?thesis
      using allObstacles_stays [OF d m _ assms(4)] assms(3) unfolding 3(3) by blast
  qed
qed

lemma run_Cons: "run sfo (ev # evs) s = run sfo evs (step sfo ev s)"
  by (simp add: run_def)


lemma run_frame: "run sfo [AnimationFrame r time] s = loop sfo r time s"
  by (simp add: run_def)

lemma run_stays:
  assumes "distinct (obstacleIds s @ concat (map eventIds evs))"
    and "ob \<in> set (obstacles s)"
    and "ob' \<in> set (obstacles (run sfo evs s))"
    and "obstacleId ob' = obstacleId ob"
  shows "stays ob ob'"
  using assms
proof (induction evs arbitrary: s ob)
  case Nil
  have d: "distinct (map obstacleId (obstacles s))"
    using Nil.prems(1) by (simp add: obstacleIds_def)
  from Nil.prems(2) obtain i where i: "i < length (obstacles s)" "obstacles s ! i = ob"
    by (auto simp add: in_set_conv_nth)
  from Nil.prems(3) obtain j where j: "j < length (obstacles s)" "obstacles s ! j = ob'"
    by (auto simp add: in_set_conv_nth run_def)
  have "i = j"
    using nth_eq_iff_index_eq [of "map obstacleId (obstacles s)" i j] d i j Nil.prems(4) by simp
  with i j show ?case by (simp add: stays_refl)
next
  case (Cons ev evs)
  let ?s = "step sfo ev s"
  have d0: "distinct (obstacleIds s @ eventIds ev)"
    and later: "set (obstacleIds s) \<inter> set (concat (map eventIds evs)) = {}"
    and ev_later: "set (eventIds ev) \<inter> set (concat (map eventIds evs)) = {}"
    and dl: "distinct (concat (map eventIds evs))"
    using Cons.prems(1) by auto
  have d1: "distinct (obstacleIds ?s)" by (rule step_distinct [OF d0])
  have sub: "set (obstacleIds ?s) \<subseteq> set (obstacleIds s) \<union> set (eventIds ev)"
    by (rule step_ids)
  have d: "distinct (obstacleIds ?s @ concat (map eventIds evs))"
    using d1 dl sub later ev_later by auto
  have rest: "set (obstacleIds (run sfo evs ?s)) \<subseteq>
      set (obstacleIds ?s) \<union> set (concat (map eventIds evs))" for evs
  proof (induction evs arbitrary: s ev)
    case Nil
    then show ?case by (simp add: run_def)
  next
    case (Cons e es)
    have "set (obstacleIds (run sfo es (step sfo e (step sfo ev s)))) \<subseteq>
        set (obstacleIds (step sfo e (step sfo ev s))) \<union> set (concat (map eventIds es))"
      by (rule Cons.IH)
    then show ?case
      using step_ids [of sfo e "step sfo ev s"] by (auto simp add: run_Cons)
  qed
  have "obstacleId ob \<in> set (obstacleIds s)"
    using Cons.prems(2) by (simp add: obstacleIds_def)
  then have "obstacleId ob \<notin> set (concat (map eventIds evs))"
    using later by blast
  moreover have "obstacleId ob' \<in> set (obstacleIds (run sfo evs ?s))"
    using Cons.prems(3) by (simp add: obstacleIds_def run_Cons)
  ultimately have "obstacleId ob \<in> set (obstacleIds ?s)"
    using rest [of evs] Cons.prems(4) by auto
  then obtain mid where mid: "mid \<in> set (obstacles ?s)" "obstacleId mid = obstacleId ob"
    by (auto simp add: obstacleIds_def)
  have 1: "stays ob mid"
    by (rule step_stays [OF d0 Cons.prems(2) mid])
  have 2: "stays mid ob'"
    using Cons.IH [OF d mid(1)] Cons.prems(3,4) mid(2) by (simp add: run_Cons)
  from 1 2 show ?case by (rule stays_trans)
qed

text \<open>
  C4: take any state whose obstacles have different mesh ids and any sequence of frames and
  inputs whose new meshes get fresh ids. An obstacle that is landed in the first state and
  still in the scene at the end is landed there, with the same flags and the same height:
  the phase never goes back to falling, and no frame changes the height of a landed
  obstacle.
\<close>

theorem landed_obstacle_stays:
  assumes "distinct (obstacleIds s @ concat (map eventIds evs))"
    and "ob \<in> set (obstacles s)" and "landed ob"
    and "ob' \<in> set (obstacles (run setFromObject evs s))"
    and "obstacleId ob' = obstacleId ob"
  shows "landed ob' \<and> falling ob' = falling ob \<and>
    position_y (mesh ob') = position_y (mesh ob)"
  using run_stays [OF assms(1,2,4,5)] assms(3) by (simp add: stays_def)

lemma dodgeLeft_result:
  "length (obstacles (run unrotatedBox dodgeLeft besideLanded)) = 1"
  "obstacleId (hd (obstacles (run unrotatedBox dodgeLeft besideLanded))) = 1"
  "position_z (mesh (hd (obstacles (run unrotatedBox dodgeLeft besideLanded)))) = - 29.67990784"
  by (simp_all add: run_def dodgeLeft_def besideLanded_def landedAside_def halfRandoms_def
      unrotatedBox_def startGame_def resetWorld_def initialState_def loop_def frameDelta_def
      scoreAndDifficulty_def laneInterpolation_def spawnObstacles_def updateObstacles_def
      updateObstacle_def intersectsCube_def clamp_def lerp_def player_y_def player_z_def
      onKeyDown_def handleStartOrRestart_def tryMoveLane_def LANES_def obstacleId_def Let_def)

theorem landed_obstacle_stays_witness:
  "distinct (obstacleIds besideLanded @ concat (map eventIds dodgeLeft)) \<and>
   landedAside \<in> set (obstacles besideLanded) \<and> landed landedAside \<and>
   hd (obstacles (run unrotatedBox dodgeLeft besideLanded)) \<in>
     set (obstacles (run unrotatedBox dodgeLeft besideLanded)) \<and>
   obstacleId (hd (obstacles (run unrotatedBox dodgeLeft besideLanded))) = obstacleId landedAside \<and>
   position_z (mesh (hd (obstacles (run unrotatedBox dodgeLeft besideLanded)))) \<noteq>
     position_z (mesh landedAside) \<and>
   landed (hd (obstacles (run unrotatedBox dodgeLeft besideLanded))) \<and>
   \<not> falling (hd (obstacles (run unrotatedBox dodgeLeft besideLanded))) \<and>
   position_y (mesh (hd (obstacles (run unrotatedBox dodgeLeft besideLanded)))) = 1"
proof -
  let ?ob' = "hd (obstacles (run unrotatedBox dodgeLeft besideLanded))"
  have d: "distinct (obstacleIds besideLanded @ concat (map eventIds dodgeLeft))"
    by (simp add: obstacleIds_def besideLanded_def dodgeLeft_def halfRandoms_def obstacleId_def
        landedAside_def)
  have m: "landedAside \<in> set (obstacles besideLanded)"
    by (simp add: besideLanded_def)
  have l: "landed landedAside" "\<not> falling landedAside" "position_y (mesh landedAside) = 1"
    "obstacleId landedAside = 1" "position_z (mesh landedAside) = - 30"
    by (simp_all add: landedAside_def obstacleId_def)
  have "obstacles (run unrotatedBox dodgeLeft besideLanded) \<noteq> []"
    using dodgeLeft_result(1) by auto
  then have m': "?ob' \<in> set (obstacles (run unrotatedBox dodgeLeft besideLanded))"
    by simp
  have i: "obstacleId ?ob' = obstacleId landedAside"
    by (simp only: dodgeLeft_result l)
  have z: "position_z (mesh ?ob') \<noteq> position_z (mesh landedAside)"
    by (simp only: dodgeLeft_result l) simp
  from landed_obstacle_stays [OF d m l(1) m' i] d m l m' i z
  show ?thesis by simp
qed

subsection \<open>Collisions end the game\<close>

lemma clamp_closest:
  assumes "lo \<le> hi"
  shows "lo \<le> clamp v lo hi" and "clamp v lo hi \<le> hi"
    and "lo \<le> q \<Longrightarrow> q \<le> hi \<Longrightarrow> (clamp v lo hi - v)\<^sup>2 \<le> (q - v)\<^sup>2"
proof -
  show "lo \<le> clamp v lo hi" "clamp v lo hi \<le> hi"
    using assms by (simp_all add: clamp_def)
  assume q: "lo \<le> q" "q \<le> hi"
  then have "\<bar>clamp v lo hi - v\<bar> \<le> \<bar>q - v\<bar>"
    by (simp add: clamp_def max_def min_def)
  then show "(clamp v lo hi - v)\<^sup>2 \<le> (q - v)\<^sup>2"
    by (simp only: abs_le_square_iff)
qed

lemma intersectsCube_formula:
  "intersectsCube sfo m px py pz radius \<longleftrightarrow>
     (clamp px (min_x (sfo m)) (max_x (sfo m)) - px)\<^sup>2 +
     (clamp py (min_y (sfo m)) (max_y (sfo m)) - py)\<^sup>2 +
     (clamp pz (min_z (sfo m)) (max_z (sfo m)) - pz)\<^sup>2 < radius\<^sup>2"
  by (simp add: intersectsCube_def Let_def power2_eq_square)

lemma intersectsCube_closest:
  assumes "min_x (sfo m) \<le> max_x (sfo m)" "min_y (sfo m) \<le> max_y (sfo m)"
    "min_z (sfo m) \<le> max_z (sfo m)"
  shows "intersectsCube sfo m px py pz radius \<longleftrightarrow>
     (\<exists>qx qy qz.
        min_x (sfo m) \<le> qx \<and> qx \<le> max_x (sfo m) \<and>
        min_y (sfo m) \<le> qy \<and> qy \<le> max_y (sfo m) \<and>
        min_z (sfo m) \<le> qz \<and> qz \<le> max_z (sfo m) \<and>
        (qx - px)\<^sup>2 + (qy - py)\<^sup>2 + (qz - pz)\<^sup>2 < radius\<^sup>2)"
proof
  assume "intersectsCube sfo m px py pz radius"
  then have "(clamp px (min_x (sfo m)) (max_x (sfo m)) - px)\<^sup>2 +
     (clamp py (min_y (sfo m)) (max_y (sfo m)) - py)\<^sup>2 +
     (clamp pz (min_z (sfo m)) (max_z (sfo m)) - pz)\<^sup>2 < radius\<^sup>2"
    by (simp only: intersectsCube_formula)
  then show "\<exists>qx qy qz.
        min_x (sfo m) \<le> qx \<and> qx \<le> max_x (sfo m) \<and>
        min_y (sfo m) \<le> qy \<and> qy \<le> max_y (sfo m) \<and>
        min_z (sfo m) \<le> qz \<and> qz \<le> max_z (sfo m) \<and>
        (qx - px)\<^sup>2 + (qy - py)\<^sup>2 + (qz - pz)\<^sup>2 < radius\<^sup>2"
    using clamp_closest(1,2) [OF assms(1), of px] clamp_closest(1,2) [OF assms(2), of py]
      clamp_closest(1,2) [OF assms(3), of pz]
    by blast
next
  assume "\<exists>qx qy qz.
        min_x (sfo m) \<le> qx \<and> qx \<le> max_x (sfo m) \<and>
        min_y (sfo m) \<le> qy \<and> qy \<le> max_y (sfo m) \<and>
        min_z (sfo m) \<le> qz \<and> qz \<le> max_z (sfo m) \<and>
        (qx - px)\<^sup>2 + (qy - py)\<^sup>2 + (qz - pz)\<^sup>2 < radius\<^sup>2"
  then obtain qx qy qz where q:
    "min_x (sfo m) \<le> qx" "qx \<le> max_x (sfo m)"
    "min_y (sfo m) \<le> qy" "qy \<le> max_y (sfo m)"
    "min_z (sfo m) \<le> qz" "qz \<le> max_z (sfo m)"
    "(qx - px)\<^sup>2 + (qy - py)\<^sup>2 + (qz - pz)\<^sup>2 < radius\<^sup>2"
    by blast
  have "(clamp px (min_x (sfo m)) (max_x (sfo m)) - px)\<^sup>2 \<le> (qx - px)\<^sup>2"
    "(clamp py (min_y (sfo m)) (max_y (sfo m)) - py)\<^sup>2 \<le> (qy - py)\<^sup>2"
    "(clamp pz (min_z (sfo m)) (max_z (sfo m)) - pz)\<^sup>2 \<le> (qz - pz)\<^sup>2"
    using clamp_closest(3) [OF assms(1) q(1,2)] clamp_closest(3) [OF assms(2) q(3,4)]
      clamp_closest(3) [OF assms(3) q(5,6)]
    by blast+
  with q(7) show "intersectsCube sfo m px py pz radius"
    unfolding intersectsCube_formula by linarith
qed

lemma updateObstacles_gameOver:
  "gameOver (updateObstacles sfo time dt fwd s) \<longleftrightarrow>
     gameOver s \<or> (\<exists>i<length (obstacles s). collides sfo time dt fwd (player_x s) i (obstacles s ! i))"
proof -
  obtain ys h where r: "obstaclesLoop sfo time dt fwd (player_x s) (length (obstacles s))
      (obstacles s) = (ys, h)" by fastforce
  then have "h \<longleftrightarrow>
      (\<exists>i<length (obstacles s). collides sfo time dt fwd (player_x s) i (obstacles s ! i))"
    using allObstacles_hit [of sfo time dt fwd "player_x s" "obstacles s"]
    by (simp add: allObstacles_def)
  then show ?thesis
    by (auto simp add: updateObstacles_def r endGame_fields Let_def)
qed

lemma updateObstacles_running:
  "running (updateObstacles sfo time dt fwd s) \<longleftrightarrow>
     running s \<and> \<not> (\<exists>i<length (obstacles s). collides sfo time dt fwd (player_x s) i (obstacles s ! i))"
proof -
  obtain ys h where r: "obstaclesLoop sfo time dt fwd (player_x s) (length (obstacles s))
      (obstacles s) = (ys, h)" by fastforce
  then have "h \<longleftrightarrow>
      (\<exists>i<length (obstacles s). collides sfo time dt fwd (player_x s) i (obstacles s ! i))"
    using allObstacles_hit [of sfo time dt fwd "player_x s" "obstacles s"]
    by (simp add: allObstacles_def)
  then show ?thesis
    by (auto simp add: updateObstacles_def r endGame_fields Let_def)
qed

lemma beforeObstacles_flags:
  "gameOver (beforeObstacles r time s) = gameOver s"
  "running (beforeObstacles r time s) = running s"
  "paused (beforeObstacles r time s) = paused s"
  by (simp_all add: beforeObstacles_def Let_def spawnObstacles_fields laneInterpolation_fields
      scoreAndDifficulty_fields)

lemma loop_gameOver:
  assumes "running s" "\<not> paused s" "\<not> gameOver s"
  shows "gameOver (loop sfo r time s) \<longleftrightarrow>
     (\<exists>i<length (obstacles (beforeObstacles r time s)).
        collides sfo time (frameDelta time s)
          (speed (beforeObstacles r time s) * frameDelta time s)
          (player_x (beforeObstacles r time s)) i (obstacles (beforeObstacles r time s) ! i))"
    and "running (loop sfo r time s) \<longleftrightarrow> \<not> gameOver (loop sfo r time s)"
  using assms
  by (simp_all add: loop_as_sections updateObstacles_gameOver updateObstacles_running
      beforeObstacles_flags)

text \<open>
  C5: \<open>intersectsCube\<close> clamps each player coordinate to the box and compares the squared
  distance of that point with the squared radius; for a box with min below max on each axis
  that point is the closest point of the box, so the test holds exactly when some point of
  the box is closer to the player than the radius. A simulated frame ends in game over
  exactly when some obstacle, after its update and still in the scene, passes the test with
  radius 0.7, and then the game is no longer running. The loop stops at the first such
  obstacle it meets, coming from the end of the list: the obstacles before it are untouched.
\<close>

theorem collision_test:
  "(intersectsCube setFromObject m px py pz radius \<longleftrightarrow>
      (clamp px (min_x (setFromObject m)) (max_x (setFromObject m)) - px)\<^sup>2 +
      (clamp py (min_y (setFromObject m)) (max_y (setFromObject m)) - py)\<^sup>2 +
      (clamp pz (min_z (setFromObject m)) (max_z (setFromObject m)) - pz)\<^sup>2 < radius\<^sup>2) \<and>
   (min_x (setFromObject m) \<le> max_x (setFromObject m) \<and>
    min_y (setFromObject m) \<le> max_y (setFromObject m) \<and>
    min_z (setFromObject m) \<le> max_z (setFromObject m) \<longrightarrow>
      (intersectsCube setFromObject m px py pz radius \<longleftrightarrow>
         (\<exists>qx qy qz.
            min_x (setFromObject m) \<le> qx \<and> qx \<le> max_x (setFromObject m) \<and>
            min_y (setFromObject m) \<le> qy \<and> qy \<le> max_y (setFromObject m) \<and>
            min_z (setFromObject m) \<le> qz \<and> qz \<le> max_z (setFromObject m) \<and>
            (qx - px)\<^sup>2 + (qy - py)\<^sup>2 + (qz - pz)\<^sup>2 < radius\<^sup>2))) \<and>
   (running s \<and> \<not> paused s \<and> \<not> gameOver s \<longrightarrow>
      (gameOver (loop setFromObject r time s) \<longleftrightarrow>
         (\<exists>i<length (obstacles (beforeObstacles r time s)).
            collides setFromObject time (frameDelta time s)
              (speed (beforeObstacles r time s) * frameDelta time s)
              (player_x (beforeObstacles r time s)) i (obstacles (beforeObstacles r time s) ! i))) \<and>
      (running (loop setFromObject r time s) \<longleftrightarrow> \<not> gameOver (loop setFromObject r time s))) \<and>
   (i < length os \<and> collides setFromObject time dt forward x i (os ! i) \<and>
    (\<forall>j. i < j \<and> j < length os \<longrightarrow> \<not> collides setFromObject time dt forward x j (os ! j)) \<longrightarrow>
      obstaclesLoop setFromObject time dt forward x (length os) os =
        (fst (obstaclesLoop setFromObject time dt forward x (length os) os), True) \<and>
      take i (fst (obstaclesLoop setFromObject time dt forward x (length os) os)) = take i os \<and>
      fst (obstaclesLoop setFromObject time dt forward x (length os) os) ! i =
        updateObstacle time dt forward i (os ! i))"
proof -
  have first: "obstaclesLoop setFromObject time dt forward x (length os) os =
        (fst (obstaclesLoop setFromObject time dt forward x (length os) os), True) \<and>
      take i (fst (obstaclesLoop setFromObject time dt forward x (length os) os)) = take i os \<and>
      fst (obstaclesLoop setFromObject time dt forward x (length os) os) ! i =
        updateObstacle time dt forward i (os ! i)"
    if h: "i < length os" "collides setFromObject time dt forward x i (os ! i)"
      "\<forall>j. i < j \<and> j < length os \<longrightarrow> \<not> collides setFromObject time dt forward x j (os ! j)"
  proof -
    have "snd (allObstacles setFromObject time dt forward x os)"
      unfolding allObstacles_hit using h(1,2) by blast
    then show ?thesis
      using allObstacles_first [OF h] by (simp add: allObstacles_def prod_eq_iff)
  qed
  show ?thesis
    using intersectsCube_formula [of setFromObject m px py pz radius]
      intersectsCube_closest [of setFromObject m px py pz radius]
      loop_gameOver [of s setFromObject r time] first
    by blast
qed

lemma aboutToHit_fields:
  "running aboutToHit" "\<not> paused aboutToHit" "\<not> gameOver aboutToHit"
  "lastTime aboutToHit = 0" "obstacles aboutToHit = [nearPlayer]"
  by (simp_all add: aboutToHit_def startGame_def resetWorld_def initialState_def)

lemma aboutToHit_before:
  "obstacles (beforeObstacles (halfRandoms 2) 16 aboutToHit) = [nearPlayer]"
  "player_x (beforeObstacles (halfRandoms 2) 16 aboutToHit) = 0"
  "speed (beforeObstacles (halfRandoms 2) 16 aboutToHit) = 10.00192"
  "frameDelta 16 aboutToHit = 0.016"
  by (simp_all add: beforeObstacles_def frameDelta_def aboutToHit_def startGame_def
      resetWorld_def initialState_def scoreAndDifficulty_def laneInterpolation_def
      spawnObstacles_def Let_def lerp_def)

lemma nearPlayer_collides:
  "collides unrotatedBox 16 0.016 (10.00192 * 0.016) 0 0 nearPlayer"
  by (simp add: collides_def updateObstacle_def nearPlayer_def intersectsCube_def
      unrotatedBox_def clamp_def player_y_def player_z_def Let_def)

theorem collision_test_witness:
  "min_x (unrotatedBox (mesh nearPlayer)) \<le> max_x (unrotatedBox (mesh nearPlayer)) \<and>
   min_y (unrotatedBox (mesh nearPlayer)) \<le> max_y (unrotatedBox (mesh nearPlayer)) \<and>
   min_z (unrotatedBox (mesh nearPlayer)) \<le> max_z (unrotatedBox (mesh nearPlayer)) \<and>
   intersectsCube unrotatedBox (mesh nearPlayer) 0 0.5 2 0.7 \<and>
   running aboutToHit \<and> \<not> paused aboutToHit \<and> \<not> gameOver aboutToHit \<and>
   gameOver (loop unrotatedBox (halfRandoms 2) 16 aboutToHit) \<and>
   \<not> running (loop unrotatedBox (halfRandoms 2) 16 aboutToHit) \<and>
   0 < length [nearPlayer] \<and>
   collides unrotatedBox 16 0.016 (10.00192 * 0.016) 0 0 ([nearPlayer] ! 0) \<and>
   snd (obstaclesLoop unrotatedBox 16 0.016 (10.00192 * 0.016) 0 (length [nearPlayer])
     [nearPlayer])"
proof -
  note t = collision_test [where setFromObject = unrotatedBox and m = "mesh nearPlayer"
      and px = 0 and py = "0.5" and pz = 2 and radius = "0.7" and s = aboutToHit
      and r = "halfRandoms 2" and time = 16 and i = 0 and os = "[nearPlayer]"
      and dt = "0.016" and forward = "10.00192 * 0.016" and x = 0]
  have box: "min_x (unrotatedBox (mesh nearPlayer)) \<le> max_x (unrotatedBox (mesh nearPlayer))"
    "min_y (unrotatedBox (mesh nearPlayer)) \<le> max_y (unrotatedBox (mesh nearPlayer))"
    "min_z (unrotatedBox (mesh nearPlayer)) \<le> max_z (unrotatedBox (mesh nearPlayer))"
    by (simp_all add: unrotatedBox_def nearPlayer_def)
  have point: "min_x (unrotatedBox (mesh nearPlayer)) \<le> 0 \<and>
      0 \<le> max_x (unrotatedBox (mesh nearPlayer)) \<and>
      min_y (unrotatedBox (mesh nearPlayer)) \<le> 0.5 \<and>
      0.5 \<le> max_y (unrotatedBox (mesh nearPlayer)) \<and>
      min_z (unrotatedBox (mesh nearPlayer)) \<le> 2 \<and>
      2 \<le> max_z (unrotatedBox (mesh nearPlayer)) \<and>
      ((0::real) - 0)\<^sup>2 + (0.5 - 0.5)\<^sup>2 + (2 - 2)\<^sup>2 < 0.7\<^sup>2"
    by (simp add: unrotatedBox_def nearPlayer_def)
  have a: "intersectsCube unrotatedBox (mesh nearPlayer) 0 0.5 2 0.7"
    using t box point by blast
  have c: "collides unrotatedBox 16 0.016 (10.00192 * 0.016) 0 0 ([nearPlayer] ! 0)"
    using nearPlayer_collides by simp
  have "\<exists>i<length (obstacles (beforeObstacles (halfRandoms 2) 16 aboutToHit)).
      collides unrotatedBox 16 (frameDelta 16 aboutToHit)
        (speed (beforeObstacles (halfRandoms 2) 16 aboutToHit) * frameDelta 16 aboutToHit)
        (player_x (beforeObstacles (halfRandoms 2) 16 aboutToHit)) i
        (obstacles (beforeObstacles (halfRandoms 2) 16 aboutToHit) ! i)"
    using c by (simp only: aboutToHit_before) simp
  then have g: "gameOver (loop unrotatedBox (halfRandoms 2) 16 aboutToHit)"
    "\<not> running (loop unrotatedBox (halfRandoms 2) 16 aboutToHit)"
    using t aboutToHit_fields(1-3) by blast+
  have "\<forall>j. 0 < j \<and> j < length [nearPlayer] \<longrightarrow>
      \<not> collides unrotatedBox 16 0.016 (10.00192 * 0.016) 0 j ([nearPlayer] ! j)"
    by simp
  then have h: "snd (obstaclesLoop unrotatedBox 16 0.016 (10.00192 * 0.016) 0
      (length [nearPlayer]) [nearPlayer])"
    using t c by (metis length_greater_0_conv not_Cons_self2 snd_conv)
  show ?thesis
    using box a g c h aboutToHit_fields(1-3) by simp
qed

subsection \<open>Spawning\<close>

lemma spawnObstacles_spawn:
  "blocksSpawned (spawnObstacles r dt s) =
     (if spawnInterval s < spawnTimer s + dt then blocksSpawned s + 1 else blocksSpawned s)"
  "spawnTimer (spawnObstacles r dt s) =
     (if spawnInterval s < spawnTimer s + dt then 0 else spawnTimer s + dt)"
  "length (obstacles (spawnObstacles r dt s)) =
     (if spawnInterval s < spawnTimer s + dt then length (obstacles s) + 1
      else length (obstacles s))"
  by (simp_all add: spawnObstacles_def spawnObstacle_def Let_def)


lemma loop_spawn:
  assumes "running s" "\<not> paused s" "\<not> gameOver s"
  shows "spawnInterval (loop sfo r time s) =
      max 0.5 (1.2 - (difficulty s + frameDelta time s * 0.03) * 0.05)"
    and "blocksSpawned (loop sfo r time s) =
      (if spawnInterval (loop sfo r time s) < spawnTimer s + frameDelta time s
       then blocksSpawned s + 1 else blocksSpawned s)"
    and "spawnTimer (loop sfo r time s) =
      (if spawnInterval (loop sfo r time s) < spawnTimer s + frameDelta time s
       then 0 else spawnTimer s + frameDelta time s)"
    and "length (obstacles (loop sfo r time s)) \<le>
      (if spawnInterval (loop sfo r time s) < spawnTimer s + frameDelta time s
       then length (obstacles s) + 1 else length (obstacles s))"
proof -
  let ?dt = "frameDelta time s"
  let ?s2 = "laneInterpolation ?dt (scoreAndDifficulty ?dt (s\<lparr>lastTime := time\<rparr>))"
  have b: "beforeObstacles r time s = spawnObstacles r ?dt ?s2"
    by (simp add: beforeObstacles_def Let_def)
  have s2: "spawnInterval ?s2 = max 0.5 (1.2 - (difficulty s + ?dt * 0.03) * 0.05)"
    "spawnTimer ?s2 = spawnTimer s" "blocksSpawned ?s2 = blocksSpawned s"
    "obstacles ?s2 = obstacles s"
    by (simp_all add: laneInterpolation_fields scoreAndDifficulty_fields)
  show i: "spawnInterval (loop sfo r time s) =
      max 0.5 (1.2 - (difficulty s + frameDelta time s * 0.03) * 0.05)"
    using assms
    by (simp add: loop_as_sections updateObstacles_fields b spawnObstacles_fields s2)
  show "blocksSpawned (loop sfo r time s) =
      (if spawnInterval (loop sfo r time s) < spawnTimer s + frameDelta time s
       then blocksSpawned s + 1 else blocksSpawned s)"
    unfolding i using assms
    by (simp add: loop_as_sections updateObstacles_fields b spawnObstacles_spawn s2)
  show "spawnTimer (loop sfo r time s) =
      (if spawnInterval (loop sfo r time s) < spawnTimer s + frameDelta time s
       then 0 else spawnTimer s + frameDelta time s)"
    unfolding i using assms
    by (simp add: loop_as_sections updateObstacles_fields b spawnObstacles_spawn s2)
  have le: "length (obstacles (loop sfo r time s)) \<le> length (obstacles (spawnObstacles r ?dt ?s2))"
    using assms allObstacles_length
    by (simp add: loop_as_sections updateObstacles_obstacles b)
  have "length (obstacles (spawnObstacles r ?dt ?s2)) =
      (if spawnInterval ?s2 < spawnTimer ?s2 + ?dt then length (obstacles ?s2) + 1
       else length (obstacles ?s2))"
    by (rule spawnObstacles_spawn(3))
  then have "length (obstacles (spawnObstacles r ?dt ?s2)) =
      (if spawnInterval (loop sfo r time s) < spawnTimer s + ?dt then length (obstacles s) + 1
       else length (obstacles s))"
    by (simp only: s2 i)
  with le show "length (obstacles (loop sfo r time s)) \<le>
      (if spawnInterval (loop sfo r time s) < spawnTimer s + frameDelta time s
       then length (obstacles s) + 1 else length (obstacles s))"
    by (simp only:)
qed

lemma loop_idle:
  assumes "\<not> (running s \<and> \<not> paused s \<and> \<not> gameOver s)"
  shows "blocksSpawned (loop sfo r time s) = blocksSpawned s"
    and "spawnTimer (loop sfo r time s) = spawnTimer s"
    and "obstacles (loop sfo r time s) = obstacles s"
  using assms by (auto simp add: loop_def Let_def)

lemma frame_spawn:
  "(blocksSpawned (loop sfo r time s) = blocksSpawned s \<or>
    blocksSpawned (loop sfo r time s) = blocksSpawned s + 1) \<and>
   length (obstacles (loop sfo r time s)) \<le> length (obstacles s) + 1 \<and>
   (blocksSpawned (loop sfo r time s) = blocksSpawned s + 1 \<longrightarrow>
      running s \<and> \<not> paused s \<and> \<not> gameOver s \<and>
      spawnTimer (loop sfo r time s) = 0 \<and>
      spawnInterval (loop sfo r time s) < spawnTimer s + frameDelta time s \<and>
      0.5 \<le> spawnInterval (loop sfo r time s)) \<and>
   (running s \<and> \<not> paused s \<and> \<not> gameOver s \<and>
    blocksSpawned (loop sfo r time s) = blocksSpawned s \<longrightarrow>
      spawnTimer (loop sfo r time s) = spawnTimer s + frameDelta time s \<and>
      spawnTimer (loop sfo r time s) \<le> spawnInterval (loop sfo r time s))"
proof (cases "running s \<and> \<not> paused s \<and> \<not> gameOver s")
  case True
  then have a: "running s" "\<not> paused s" "\<not> gameOver s" by simp_all
  show ?thesis
    using loop_spawn [OF a, of sfo r time] a
    by (auto split: if_splits)
next
  case False
  then show ?thesis
    using loop_idle [OF False, of sfo r time] by auto
qed

lemma command_spawn:
  "spawnTimer (tryMoveLane delta s) = spawnTimer s"
  "blocksSpawned (tryMoveLane delta s) = blocksSpawned s"
  "spawnTimer (togglePause now s) = spawnTimer s"
  "blocksSpawned (togglePause now s) = blocksSpawned s"
  "spawnTimer (startGame now s) = 0"
  "blocksSpawned (startGame now s) = 0"
  by (simp_all add: tryMoveLane_def togglePause_def startGame_def resetWorld_def Let_def)

lemma step_spawnTimer:
  "spawnTimer (step sfo ev s) =
     (if restarts ev s \<or> spawns sfo ev s then 0 else spawnTimer s + simulatedTime ev s)"
proof (cases ev)
  case (AnimationFrame r time)
  show ?thesis
  proof (cases "running s \<and> \<not> paused s \<and> \<not> gameOver s")
    case True
    then have a: "running s" "\<not> paused s" "\<not> gameOver s" by simp_all
    show ?thesis
      using loop_spawn(2,3) [OF a, of sfo r time] a
      by (simp add: AnimationFrame spawns_def)
  next
    case False
    then show ?thesis
      using loop_idle(1,2) [OF False, of sfo r time]
      by (auto simp add: AnimationFrame spawns_def)
  qed
next
  case (KeyDown code now)
  then show ?thesis
    by (cases code)
      (simp_all add: onKeyDown_def handleStartOrRestart_def command_spawn spawns_def Let_def)
next
  case (TouchStart clientX clientY now)
  then show ?thesis
    by (simp add: onTouchStart_def handleStartOrRestart_def command_spawn spawns_def)
next
  case (TouchEnd clientX clientY)
  then show ?thesis
    by (simp add: onTouchEnd_def command_spawn spawns_def Let_def)
next
  case (Click now)
  then show ?thesis
    by (simp add: onClick_def command_spawn spawns_def)
qed

lemma run_spawnTimer:
  "spawnTimer s = t \<Longrightarrow> spawnTimer (run sfo evs s) = timeSinceSpawn sfo evs s t"
proof (induction evs arbitrary: s t)
  case Nil
  then show ?case by (simp add: run_def)
next
  case (Cons ev evs)
  let ?t = "if restarts ev s \<or> spawns sfo ev s then 0 else t + simulatedTime ev s"
  have "spawnTimer (step sfo ev s) = ?t"
    using Cons.prems by (simp only: step_spawnTimer)
  from Cons.IH [OF this] show ?case
    by (simp add: run_Cons)
qed

text \<open>
  C10: a frame raises the count of spawned obstacles by at most one and adds at most one
  obstacle to the list, whatever the frame delta. When it spawns, the game was running, the
  timer plus the frame delta exceeded the spawn interval of that frame (which is at least
  0.5), and the timer is 0 afterwards, the overshoot gone. When a simulated frame does not
  spawn, the timer has grown by the frame delta and is within the interval. After any
  sequence of events the timer is the simulated time since the last spawn or start.
\<close>

theorem at_most_one_spawn_per_frame:
  "(blocksSpawned (loop setFromObject r time s) = blocksSpawned s \<or>
    blocksSpawned (loop setFromObject r time s) = blocksSpawned s + 1) \<and>
   length (obstacles (loop setFromObject r time s)) \<le> length (obstacles s) + 1 \<and>
   (blocksSpawned (loop setFromObject r time s) = blocksSpawned s + 1 \<longrightarrow>
      running s \<and> \<not> paused s \<and> \<not> gameOver s \<and>
      spawnTimer (loop setFromObject r time s) = 0 \<and>
      spawnInterval (loop setFromObject r time s) < spawnTimer s + frameDelta time s \<and>
      0.5 \<le> spawnInterval (loop setFromObject r time s)) \<and>
   (running s \<and> \<not> paused s \<and> \<not> gameOver s \<and>
    blocksSpawned (loop setFromObject r time s) = blocksSpawned s \<longrightarrow>
      spawnTimer (loop setFromObject r time s) = spawnTimer s + frameDelta time s \<and>
      spawnTimer (loop setFromObject r time s) \<le> spawnInterval (loop setFromObject r time s)) \<and>
   spawnTimer (run setFromObject evs s) = timeSinceSpawn setFromObject evs s (spawnTimer s)"
  using frame_spawn [of setFromObject r time s] run_spawnTimer [of s "spawnTimer s" setFromObject evs]
  by blast

lemma dueToSpawn_fields:
  "running dueToSpawn" "\<not> paused dueToSpawn" "\<not> gameOver dueToSpawn"
  "lastTime dueToSpawn = 0" "difficulty dueToSpawn = 1" "spawnTimer dueToSpawn = 1.14"
  "obstacles dueToSpawn = []" "blocksSpawned dueToSpawn = 0"
  by (simp_all add: dueToSpawn_def startGame_def resetWorld_def initialState_def)

theorem at_most_one_spawn_per_frame_witness:
  "blocksSpawned (loop unrotatedBox (halfRandoms 1) 50 dueToSpawn) = blocksSpawned dueToSpawn + 1 \<and>
   running dueToSpawn \<and> \<not> paused dueToSpawn \<and> \<not> gameOver dueToSpawn \<and>
   spawnTimer (loop unrotatedBox (halfRandoms 1) 50 dueToSpawn) = 0 \<and>
   spawnInterval (loop unrotatedBox (halfRandoms 1) 50 dueToSpawn) <
     spawnTimer dueToSpawn + frameDelta 50 dueToSpawn \<and>
   length (obstacles (loop unrotatedBox (halfRandoms 1) 50 dueToSpawn)) \<le> 1 \<and>
   running justStarted \<and> \<not> paused justStarted \<and> \<not> gameOver justStarted \<and>
   blocksSpawned (loop unrotatedBox (halfRandoms 1) 16 justStarted) = blocksSpawned justStarted \<and>
   spawnTimer (loop unrotatedBox (halfRandoms 1) 16 justStarted) = 0.016 \<and>
   timeSinceSpawn unrotatedBox [AnimationFrame (halfRandoms 1) 50] dueToSpawn
     (spawnTimer dueToSpawn) = 0"
proof -
  note due = dueToSpawn_fields(1-3)
  note js = justStarted_fields(1-3)
  have dt: "frameDelta 50 dueToSpawn = 0.05" "frameDelta 16 justStarted = 0.016"
    by (simp_all add: frameDelta_def dueToSpawn_fields justStarted_fields)
  have iv: "spawnInterval (loop unrotatedBox (halfRandoms 1) 50 dueToSpawn) = 1.149925"
    unfolding loop_spawn(1) [OF due] dt dueToSpawn_fields by simp
  have iv': "spawnInterval (loop unrotatedBox (halfRandoms 1) 16 justStarted) = 1.149976"
    unfolding loop_spawn(1) [OF js] dt justStarted_fields by simp
  have a: "blocksSpawned (loop unrotatedBox (halfRandoms 1) 50 dueToSpawn) =
      blocksSpawned dueToSpawn + 1"
    unfolding loop_spawn(2) [OF due] iv dt dueToSpawn_fields by simp
  have b: "blocksSpawned (loop unrotatedBox (halfRandoms 1) 16 justStarted) =
      blocksSpawned justStarted"
    unfolding loop_spawn(2) [OF js] iv' dt justStarted_fields by simp
  note t1 = at_most_one_spawn_per_frame [where setFromObject = unrotatedBox
      and r = "halfRandoms 1" and time = 50 and s = dueToSpawn
      and evs = "[AnimationFrame (halfRandoms 1) 50]"]
  note t2 = at_most_one_spawn_per_frame [where setFromObject = unrotatedBox
      and r = "halfRandoms 1" and time = 16 and s = justStarted and evs = "[]"]
  have c: "spawnTimer (loop unrotatedBox (halfRandoms 1) 50 dueToSpawn) = 0"
    "spawnInterval (loop unrotatedBox (halfRandoms 1) 50 dueToSpawn) <
      spawnTimer dueToSpawn + frameDelta 50 dueToSpawn"
    using t1 a by blast+
  have "length (obstacles (loop unrotatedBox (halfRandoms 1) 50 dueToSpawn)) \<le>
      length (obstacles dueToSpawn) + 1"
    using t1 by blast
  then have d: "length (obstacles (loop unrotatedBox (halfRandoms 1) 50 dueToSpawn)) \<le> 1"
    by (simp add: dueToSpawn_fields)
  have "spawnTimer (loop unrotatedBox (halfRandoms 1) 16 justStarted) =
      spawnTimer justStarted + frameDelta 16 justStarted"
    using t2 b js by blast
  then have e: "spawnTimer (loop unrotatedBox (halfRandoms 1) 16 justStarted) = 0.016"
    by (simp add: dt justStarted_fields)
  have "spawnTimer (run unrotatedBox [AnimationFrame (halfRandoms 1) 50] dueToSpawn) =
      timeSinceSpawn unrotatedBox [AnimationFrame (halfRandoms 1) 50] dueToSpawn
        (spawnTimer dueToSpawn)"
    using t1 by blast
  then have f: "timeSinceSpawn unrotatedBox [AnimationFrame (halfRandoms 1) 50] dueToSpawn
      (spawnTimer dueToSpawn) = 0"
    using c(1) by (simp add: run_frame)
  show ?thesis
    using a b c d e f due js by blast
qed

subsection \<open>The first spawn of a run\<close>












end
